theory Spec2Isabelle
  imports Complex_Main
begin

section \<open>Common conventions\<close>

text \<open>
  Integers of Python are \<open>nat\<close> or \<open>int\<close>.  Every exception of the source is a value
  of \<open>py_error\<close> on the left of a sum.  Floating-point values are real numbers; where
  a result depends on the rounding of the machine (the brightness and colour-shift
  factors and their products with the pixels) every operation is rounded as IEEE 754
  does, see the section on floating point.  The other formulas are taken over the reals.
\<close>

datatype py_error = ZeroDivisionError | ValueError | IndexError | TypeError | Cv2Error

section \<open>Boundary analysis: \<open>ColorBlindnessEvaluator\<close>\<close>

text \<open>
  One entry of \<open>sequence_results["predictions"]\<close>, with the keys that the threshold
  functions read.  A step whose model call raised is stored without the key
  \<open>"success"\<close>; that is \<open>p_success = None\<close>.
\<close>

record prediction =
  p_step :: nat
  p_severity :: real
  p_success :: "bool option"

text \<open>
  The comparator stands for the pipeline \<open>model_predict_func\<close>, \<open>is_prediction_correct\<close>
  and \<open>confidence >= confidence_threshold\<close> of one step: \<open>None\<close> when the model call
  raises inside the \<open>try\<close>, otherwise \<open>(is_correct, is_confident)\<close>.
\<close>

type_synonym 'img comparator = "'img \<Rightarrow> (bool \<times> bool) option"

text \<open>
  The loop \<open>for step, image_path in enumerate(gradient_files)\<close>.  The severity
  \<open>step / (len(gradient_files) - 1)\<close> is computed outside the \<open>try\<close>, so with exactly
  one file the division raises.
\<close>

fun eval_steps :: "'img comparator \<Rightarrow> nat \<Rightarrow> (nat \<times> 'img) list \<Rightarrow> py_error + prediction list" where
  "eval_steps cmp n [] = Inr []"
| "eval_steps cmp n ((s, img) # rest) =
     (if n = 1 then Inl ZeroDivisionError
      else
        (let sev = real s / (real n - 1);
             p = (case cmp img of
                    None \<Rightarrow> \<lparr>p_step = s, p_severity = sev, p_success = None\<rparr>
                  | Some (is_correct, is_confident) \<Rightarrow>
                      \<lparr>p_step = s, p_severity = sev, p_success = Some (is_correct \<and> is_confident)\<rparr>)
         in (case eval_steps cmp n rest of
               Inl e \<Rightarrow> Inl e
             | Inr ps \<Rightarrow> Inr (p # ps))))"

fun find_failure_threshold :: "prediction list \<Rightarrow> real" where
  "find_failure_threshold [] = 1.0"
| "find_failure_threshold (pred # preds) =
     (case p_success pred of
        Some s \<Rightarrow> (if \<not> s then p_severity pred else find_failure_threshold preds)
      | None \<Rightarrow> find_failure_threshold preds)"

fun find_recovery_loop :: "bool \<Rightarrow> prediction list \<Rightarrow> real option" where
  "find_recovery_loop failed [] = None"
| "find_recovery_loop failed (pred # preds) =
     (case p_success pred of
        None \<Rightarrow> find_recovery_loop failed preds
      | Some s \<Rightarrow>
          (if \<not> s then find_recovery_loop True preds
           else if failed \<and> s then Some (p_severity pred)
           else find_recovery_loop failed preds))"

definition find_recovery_threshold :: "prediction list \<Rightarrow> real option" where
  "find_recovery_threshold preds = find_recovery_loop False preds"

record sequence_results =
  total_steps :: nat
  predictions :: "prediction list"
  failure_threshold :: real
  recovery_threshold :: "real option"

definition evaluate_colorblind_sequence ::
    "'img list \<Rightarrow> 'img comparator \<Rightarrow> py_error + sequence_results" where
  "evaluate_colorblind_sequence gradient_files cmp =
     (case eval_steps cmp (length gradient_files) (enumerate 0 gradient_files) of
        Inl e \<Rightarrow> Inl e
      | Inr ps \<Rightarrow>
          Inr \<lparr>total_steps = length gradient_files,
               predictions = ps,
               failure_threshold = find_failure_threshold ps,
               recovery_threshold = find_recovery_threshold ps\<rparr>)"

text \<open>
  The failure of a step as the specification words it: the model answered and
  \<open>is_correct AND is_confident\<close> is false.  A step whose call raised is not a failure.
\<close>

definition comparator_fails :: "'img comparator \<Rightarrow> 'img \<Rightarrow> bool" where
  "comparator_fails cmp img =
     (case cmp img of
        Some (is_correct, is_confident) \<Rightarrow> \<not> (is_correct \<and> is_confident)
      | None \<Rightarrow> False)"

section \<open>Boundary analysis: \<open>VisualBoundaryEvaluator\<close>\<close>

text \<open>
  A \<open>TestResult\<close> with its fields level, success and confidence; the names and the
  processing time play no part in the threshold.  The report has the threshold, the
  success rate and the two counts; the average confidence is not modelled.
\<close>

record test_result =
  tr_level :: int
  tr_success :: bool
  tr_confidence :: real

text \<open>
  The loop of \<open>VisualBoundaryEvaluator.find_failure_threshold\<close> over the results sorted
  by level, with the counters \<open>success_count\<close> and \<open>failure_count\<close>; the \<open>break\<close> is
  the branch that returns.
\<close>

fun threshold_loop :: "test_result list \<Rightarrow> nat \<Rightarrow> nat \<Rightarrow> int option" where
  "threshold_loop [] success_count failure_count = None"
| "threshold_loop (r # rs) success_count failure_count =
     (if tr_success r then threshold_loop rs (success_count + 1) 0
      else if failure_count + 1 \<ge> 3 then Some (tr_level r - 2)
      else threshold_loop rs 0 (failure_count + 1))"

record threshold_report =
  vb_failure_threshold :: "int option"
  success_rate :: real
  total_tests :: nat
  successful_tests :: nat

definition vb_find_failure_threshold :: "test_result list \<Rightarrow> threshold_report" where
  "vb_find_failure_threshold results =
     (let sorted_results = sort_key tr_level results;
          total = length results;
          successful = length (filter tr_success results)
      in \<lparr>vb_failure_threshold = threshold_loop sorted_results 0 0,
          success_rate = (if total > 0 then real successful / real total else 0),
          total_tests = total,
          successful_tests = successful\<rparr>)"

text \<open>
  The first run of three consecutive failures in a list of results, reported as the level
  of its third result minus 2; \<open>None\<close> when there is no such run.
\<close>

fun first_run_of_three :: "test_result list \<Rightarrow> int option" where
  "first_run_of_three (a # b # c # rest) =
     (if \<not> tr_success a \<and> \<not> tr_success b \<and> \<not> tr_success c then Some (tr_level c - 2)
      else first_run_of_three (b # c # rest))"
| "first_run_of_three _ = None"

section \<open>Arrays and pixel arithmetic\<close>

text \<open>
  A numpy array is its shape and its buffer in row-major order.  An image read by
  \<open>cv2.imread\<close> has shape \<open>[height, width, 3]\<close> with the channels in the order blue,
  green, red, and bytes in 0..255.
\<close>

record 'a ndarray =
  shape :: "nat list"
  data :: "'a list"

definition wf_array :: "'a ndarray \<Rightarrow> bool" where
  "wf_array a = (length (data a) = prod_list (shape a))"

definition valid_bytes :: "nat list \<Rightarrow> bool" where
  "valid_bytes xs = list_all (\<lambda>v. v \<le> 255) xs"

definition map_array :: "('a \<Rightarrow> 'b) \<Rightarrow> 'a ndarray \<Rightarrow> 'b ndarray" where
  "map_array f a = \<lparr>shape = shape a, data = map f (data a)\<rparr>"

text \<open>An elementwise operation that also sees the flat index of the element.\<close>

definition map_enum :: "(nat \<Rightarrow> 'a \<Rightarrow> 'b) \<Rightarrow> 'a list \<Rightarrow> 'b list" where
  "map_enum f xs = map (\<lambda>(i, x). f i x) (enumerate 0 xs)"

definition map_enum_array :: "(nat \<Rightarrow> 'a \<Rightarrow> 'b) \<Rightarrow> 'a ndarray \<Rightarrow> 'b ndarray" where
  "map_enum_array f a = \<lparr>shape = shape a, data = map_enum f (data a)\<rparr>"

text \<open>\<open>np.clip(x, lo, hi)\<close> is \<open>minimum(maximum(x, lo), hi)\<close>.\<close>

definition np_clip :: "real \<Rightarrow> real \<Rightarrow> real \<Rightarrow> real" where
  "np_clip x lo hi = min (max x lo) hi"

text \<open>
  \<open>.astype(np.uint8)\<close> of a float: the fraction is dropped and the integer is taken
  modulo 256.  The source applies it to clipped values only.
\<close>

definition astype_uint8 :: "real \<Rightarrow> nat" where
  "astype_uint8 x = nat (if x \<ge> 0 then \<lfloor>x\<rfloor> else \<lceil>x\<rceil>) mod 256"

text \<open>Python's \<open>int(x)\<close> of a float truncates towards zero.\<close>

definition py_int :: "real \<Rightarrow> int" where
  "py_int x = (if x \<ge> 0 then \<lfloor>x\<rfloor> else \<lceil>x\<rceil>)"

definition clip_cast :: "real ndarray \<Rightarrow> nat ndarray" where
  "clip_cast a = map_array (\<lambda>x. astype_uint8 (np_clip x 0 255)) a"

definition then_do :: "py_error + 'a \<Rightarrow> ('a \<Rightarrow> py_error + 'b) \<Rightarrow> py_error + 'b" where
  "then_do r f = (case r of Inl e \<Rightarrow> Inl e | Inr x \<Rightarrow> f x)"

text \<open>
  The coordinate along axis 2 of the element at flat index \<open>i\<close>, and the slice
  operations \<open>a[:, :, c] *= k\<close> and \<open>a[:, :, c] = f(a[:, :, c])\<close>, which raise IndexError
  when the array has fewer than three axes or no channel \<open>c\<close>.
\<close>

definition axis2 :: "nat list \<Rightarrow> nat \<Rightarrow> nat" where
  "axis2 shp i = (i div prod_list (drop 3 shp)) mod (shp ! 2)"

definition update_channel :: "nat \<Rightarrow> (real \<Rightarrow> real) \<Rightarrow> real ndarray \<Rightarrow> py_error + real ndarray" where
  "update_channel c f a =
     (if length (shape a) < 3 \<or> shape a ! 2 \<le> c then Inl IndexError
      else Inr (map_enum_array (\<lambda>i x. if axis2 (shape a) i = c then f x else x) a))"


section \<open>Floating point\<close>

text \<open>
  IEEE 754 rounding to the nearest value with \<open>p\<close> significant bits, ties to even:
  \<open>binary_exponent x\<close> is the \<open>e\<close> with \<open>2^e \<le> x < 2^(e+1)\<close>, and \<open>fl p x\<close> rounds
  \<open>x\<close> to a multiple of \<open>2^(e - p + 1)\<close>.  A Python float is a binary64 (53 bits), a
  numpy \<open>float32\<close> has 24 bits; every arithmetic operation returns the rounded exact
  result.  Overflow and subnormal numbers are not modelled: the values of the generators
  are far from both.
\<close>

definition round_half_even :: "real \<Rightarrow> int" where
  "round_half_even x =
     (let f = \<lfloor>x\<rfloor>; d = x - of_int f
      in if d < 1/2 then f
         else if d > 1/2 then f + 1
         else if even f then f else f + 1)"

function exponent_up :: "real \<Rightarrow> int" where
  "exponent_up x = (if x \<ge> 2 then exponent_up (x / 2) + 1 else 0)"
  by pat_completeness auto
termination
proof (relation "measure (\<lambda>x. nat \<lfloor>x\<rfloor>)")
  show "wf (measure (\<lambda>x::real. nat \<lfloor>x\<rfloor>))" by simp
next
  fix x :: real
  assume x: "2 \<le> x"
  then have "x / 2 \<le> x - 1" by simp
  then have "\<lfloor>x / 2\<rfloor> \<le> \<lfloor>x - 1\<rfloor>" by (rule floor_mono)
  also have "\<dots> = \<lfloor>x\<rfloor> - 1" by (rule floor_diff_one)
  finally have a: "\<lfloor>x / 2\<rfloor> \<le> \<lfloor>x\<rfloor> - 1" .
  have "2 \<le> \<lfloor>x\<rfloor>" using x by (simp only: le_floor_iff of_int_numeral)
  with a have "nat \<lfloor>x / 2\<rfloor> < nat \<lfloor>x\<rfloor>" by linarith
  then show "(x / 2, x) \<in> measure (\<lambda>x. nat \<lfloor>x\<rfloor>)" by (simp only: in_measure)
qed

function exponent_down :: "real \<Rightarrow> int" where
  "exponent_down x = (if 0 < x \<and> x < 1 then exponent_down (x * 2) - 1 else 0)"
  by pat_completeness auto
termination
proof (relation "measure (\<lambda>x. nat \<lceil>1 / x\<rceil>)")
  show "wf (measure (\<lambda>x::real. nat \<lceil>1 / x\<rceil>))" by simp
next
  fix x :: real
  assume x: "0 < x \<and> x < 1"
  then have y: "1 < 1 / x" by simp
  then have c2: "2 \<le> \<lceil>1 / x\<rceil>" by (simp add: le_ceiling_iff)
  have "\<lceil>1 / (x * 2)\<rceil> < \<lceil>1 / x\<rceil>"
  proof (cases "1 / x \<le> 2")
    case True
    then have "1 / (x * 2) \<le> 1" using x by (simp add: field_simps)
    then have "\<lceil>1 / (x * 2)\<rceil> \<le> 1" by (simp only: ceiling_le_iff of_int_1)
    with c2 show ?thesis by linarith
  next
    case False
    then have "1 / (x * 2) \<le> 1 / x - 1" using x by (simp add: field_simps)
    then have "\<lceil>1 / (x * 2)\<rceil> \<le> \<lceil>1 / x - 1\<rceil>" by (rule ceiling_mono)
    also have "\<dots> = \<lceil>1 / x\<rceil> - 1" by (rule ceiling_diff_one)
    finally show ?thesis by linarith
  qed
  then have "nat \<lceil>1 / (x * 2)\<rceil> < nat \<lceil>1 / x\<rceil>" using c2 by linarith
  then show "(x * 2, x) \<in> measure (\<lambda>x. nat \<lceil>1 / x\<rceil>)" by (simp only: in_measure)
qed

definition binary_exponent :: "real \<Rightarrow> int" where
  "binary_exponent x = (if x \<ge> 1 then exponent_up x else exponent_down x)"

definition fl :: "nat \<Rightarrow> real \<Rightarrow> real" where
  "fl p x =
     (if x = 0 then 0
      else
        (let e = binary_exponent \<bar>x\<bar>;
             q = int p - 1 - e
         in of_int (round_half_even (x * 2 powi q)) / 2 powi q))"

definition f64 :: "real \<Rightarrow> real" where
  "f64 x = fl 53 x"

definition f32 :: "real \<Rightarrow> real" where
  "f32 x = fl 24 x"

section \<open>\<open>VisualDegradationGenerator\<close> (visual_degradation.py)\<close>

text \<open>
  \<open>degrade_sharpness\<close>: the conversion to a PIL image, its Gaussian blur and the
  conversion back are library code; \<open>blur radius image\<close> is the buffer they produce.
\<close>

definition degrade_sharpness :: "(real \<Rightarrow> nat ndarray \<Rightarrow> nat list) \<Rightarrow> nat ndarray \<Rightarrow> int \<Rightarrow> nat ndarray" where
  "degrade_sharpness blur img lvl =
     (if lvl = 0 then img
      else
        (let blur_radius = 0.1 + (real_of_int lvl / 100.0) * 19.9
         in \<lparr>shape = shape img, data = blur blur_radius img\<rparr>))"

text \<open>
  \<open>a[:, :, c] *= k\<close> on a \<open>float32\<close> array with a Python float \<open>k\<close>: numpy converts
  \<open>k\<close> to \<open>float32\<close> and rounds each product to \<open>float32\<close>.
\<close>

definition scale_channel :: "nat \<Rightarrow> real \<Rightarrow> real ndarray \<Rightarrow> py_error + real ndarray" where
  "scale_channel c k a = update_channel c (\<lambda>x. f32 (x * f32 k)) a"

text \<open>
  The brightness factor is computed in Python floats; \<open>image.astype(np.float32) *
  brightness_factor\<close> converts it to \<open>float32\<close> and rounds each product to \<open>float32\<close>.
\<close>

definition brightness_factor :: "int \<Rightarrow> real" where
  "brightness_factor lvl =
     (if lvl \<le> 50 then f64 (1.0 - f64 (f64 (real_of_int lvl / 50.0) * f64 0.8))
      else f64 (1.0 + f64 (f64 (real_of_int (lvl - 50) / 50.0) * 1.5)))"

definition degrade_brightness :: "nat ndarray \<Rightarrow> int \<Rightarrow> nat ndarray" where
  "degrade_brightness img lvl =
     (if lvl = 0 then img
      else
        (let adjusted = map_array (\<lambda>p. f32 (real p * f32 (brightness_factor lvl))) img
         in clip_cast adjusted))"


definition np_mean :: "nat ndarray \<Rightarrow> real" where
  "np_mean a = real (sum_list (data a)) / real (length (data a))"

definition degrade_contrast :: "nat ndarray \<Rightarrow> int \<Rightarrow> nat ndarray" where
  "degrade_contrast img lvl =
     (if lvl = 0 then img
      else
        (let contrast_factor = 1.0 - (real_of_int lvl / 100.0) * 0.99;
             mean = np_mean img;
             adjusted = map_array (\<lambda>p. (real p - mean) * contrast_factor + mean) img
         in clip_cast adjusted))"

text \<open>Python's \<open>%\<close> on floats, for a positive modulus.\<close>

definition float_mod :: "real \<Rightarrow> real \<Rightarrow> real" where
  "float_mod x m = x - m * of_int \<lfloor>x / m\<rfloor>"

text \<open>
  \<open>degrade_color_distortion\<close>: \<open>bgr2hsv\<close> and \<open>hsv2bgr\<close> are the buffers computed by
  \<open>cv2.cvtColor\<close>.
\<close>

definition degrade_color_distortion ::
    "(nat list \<Rightarrow> nat list) \<Rightarrow> (nat list \<Rightarrow> nat list) \<Rightarrow> nat ndarray \<Rightarrow> int \<Rightarrow> py_error + nat ndarray" where
  "degrade_color_distortion bgr2hsv hsv2bgr img lvl =
     (if lvl = 0 then Inr img
      else
        (let hsv = \<lparr>shape = shape img, data = map real (bgr2hsv (data img))\<rparr>;
             hue_shift = (real_of_int lvl / 100.0) * 360 - 180;
             saturation_factor = 0.1 + (real_of_int lvl / 100.0) * 2.9
         in then_do (update_channel 0 (\<lambda>x. float_mod (x + hue_shift) 180) hsv) (\<lambda>hsv1.
            then_do (update_channel 1 (\<lambda>x. np_clip (x * saturation_factor) 0 255) hsv1) (\<lambda>hsv2.
            Inr \<lparr>shape = shape img, data = hsv2bgr (map astype_uint8 (data hsv2))\<rparr>))))"

definition degrade_color_shift :: "nat ndarray \<Rightarrow> int \<Rightarrow> py_error + nat ndarray" where
  "degrade_color_shift img lvl =
     (if lvl = 0 then Inr img
      else
        (let shift_type = lvl mod 6;
             shift_intensity = f64 (real_of_int lvl / 100.0);
             img_float = map_array real img;
             shifted =
               (if shift_type = 0 then
                  then_do (scale_channel 2 (f64 (1.0 + shift_intensity)) img_float)
                    (scale_channel 1 (f64 (1.0 - f64 (shift_intensity * f64 0.3))))
                else if shift_type = 1 then
                  then_do (scale_channel 1 (f64 (1.0 + shift_intensity)) img_float)
                    (scale_channel 2 (f64 (1.0 - f64 (shift_intensity * f64 0.3))))
                else if shift_type = 2 then
                  then_do (scale_channel 0 (f64 (1.0 + shift_intensity)) img_float)
                    (scale_channel 1 (f64 (1.0 - f64 (shift_intensity * f64 0.3))))
                else if shift_type = 3 then
                  scale_channel 0 (f64 (1.0 - f64 (shift_intensity * 0.5))) img_float
                else if shift_type = 4 then
                  scale_channel 2 (f64 (1.0 - f64 (shift_intensity * 0.5))) img_float
                else
                  scale_channel 1 (f64 (1.0 - f64 (shift_intensity * 0.5))) img_float)
         in then_do shifted (\<lambda>a. Inr (clip_cast a))))"

text \<open>
  \<open>cv2.resize(src, (w, h), interpolation)\<close>: the result has \<open>h\<close> rows and \<open>w\<close> columns
  and the channels of the source; \<open>resample\<close> is the resampled buffer.  An empty source or
  an empty target size is refused by OpenCV.
\<close>

definition cv2_resize ::
    "(nat ndarray \<Rightarrow> nat \<times> nat \<Rightarrow> nat list) \<Rightarrow> nat ndarray \<Rightarrow> nat \<times> nat \<Rightarrow> py_error + nat ndarray" where
  "cv2_resize resample src dsize =
     (case shape src of
        h # w # rest \<Rightarrow>
          (if h = 0 \<or> w = 0 \<or> fst dsize = 0 \<or> snd dsize = 0 then Inl Cv2Error
           else Inr \<lparr>shape = snd dsize # fst dsize # rest, data = resample src dsize\<rparr>)
      | _ \<Rightarrow> Inl Cv2Error)"

definition degrade_resolution ::
    "(nat ndarray \<Rightarrow> nat \<times> nat \<Rightarrow> nat list) \<Rightarrow> (nat ndarray \<Rightarrow> nat \<times> nat \<Rightarrow> nat list) \<Rightarrow>
     nat ndarray \<Rightarrow> int \<Rightarrow> py_error + nat ndarray" where
  "degrade_resolution inter_area inter_linear img lvl =
     (if lvl = 0 then Inr img
      else
        (case shape img of
           h # w # rest \<Rightarrow>
             (let scale_factor = 1.0 - (real_of_int lvl / 100.0) * 0.95;
                  new_w = max (py_int (real w * scale_factor)) 8;
                  new_h = max (py_int (real h * scale_factor)) 8
              in then_do (cv2_resize inter_area img (nat new_w, nat new_h)) (\<lambda>downsampled.
                 cv2_resize inter_linear downsampled (w, h)))
         | _ \<Rightarrow> Inl ValueError))"







section \<open>Gradient sequencing (complete_50_illusions_final.py)\<close>

text \<open>
  The interpolation position of an inner index in \<open>generate_gradient_variations\<close>:
  five bands, the last one a draw from \<open>np.random.beta(0.5, 0.5)\<close>, which is the
  parameter \<open>beta_draw\<close>.  The divisions are reached only for \<open>0 < i < gradient_count - 1\<close>,
  where the divisors are not zero.
\<close>

definition interpolation_t :: "int \<Rightarrow> real \<Rightarrow> int \<Rightarrow> real" where
  "interpolation_t gradient_count beta_draw i =
     (if i < 20 then real_of_int i / real_of_int (gradient_count - 1)
      else if i < 40 then (exp (real_of_int i / 20) - 1) / (exp 4.95 - 1)
      else if i < 60 then ln (real_of_int (i + 1)) / ln (real_of_int gradient_count)
      else if i < 80 then (sin (real_of_int i * pi / real_of_int gradient_count) + 1) / 2
      else beta_draw)"

definition gradient_param :: "int \<Rightarrow> real \<Rightarrow> int \<Rightarrow> real \<times> real \<Rightarrow> real" where
  "gradient_param gradient_count beta_draw i rng =
     (case rng of (min_val, max_val) \<Rightarrow>
        if i = 0 then min_val
        else if i = gradient_count - 1 then max_val
        else
          (let t = interpolation_t gradient_count beta_draw i;
               t = max 0 (min 1 t)
           in min_val + (max_val - min_val) * t))"

text \<open>
  The dictionary \<open>params\<close> built for index \<open>i\<close> from \<open>param_ranges\<close>, in insertion order,
  and the list of these dictionaries over \<open>range(self.gradient_count)\<close>.  \<open>beta i name\<close> is
  the draw made for parameter \<open>name\<close> at index \<open>i\<close>.
\<close>

definition gradient_params ::
    "int \<Rightarrow> (string \<Rightarrow> real) \<Rightarrow> int \<Rightarrow> (string \<times> real \<times> real) list \<Rightarrow> (string \<times> real) list" where
  "gradient_params gradient_count beta i param_ranges =
     map (\<lambda>(param_name, rng). (param_name, gradient_param gradient_count (beta param_name) i rng))
       param_ranges"

definition gradient_sequence ::
    "int \<Rightarrow> (int \<Rightarrow> string \<Rightarrow> real) \<Rightarrow> (string \<times> real \<times> real) list \<Rightarrow> (string \<times> real) list list" where
  "gradient_sequence gradient_count beta param_ranges =
     map (\<lambda>i. gradient_params gradient_count (beta i) i param_ranges)
       (map int [0 ..< nat gradient_count])"


section \<open>PIL images\<close>

text \<open>
  A PIL image has a size (width, height), between one and four bands, and one byte per
  band and pixel.  \<open>np.array(img)\<close> of a one-band image is two-dimensional, of the
  others \<open>[height, width, bands]\<close>; \<open>Image.fromarray\<close> goes back and refuses other
  shapes.
\<close>

record 'a pil_image =
  im_width :: nat
  im_height :: nat
  im_bands :: nat
  im_data :: "'a list"

definition wf_image :: "nat pil_image \<Rightarrow> bool" where
  "wf_image im =
     (1 \<le> im_bands im \<and> im_bands im \<le> 4 \<and>
      length (im_data im) = im_height im * im_width im * im_bands im \<and>
      valid_bytes (im_data im))"

definition np_array :: "'a pil_image \<Rightarrow> 'a ndarray" where
  "np_array im =
     \<lparr>shape = (if im_bands im = 1 then [im_height im, im_width im]
               else [im_height im, im_width im, im_bands im]),
      data = im_data im\<rparr>"

definition fromarray :: "'a ndarray \<Rightarrow> py_error + 'a pil_image" where
  "fromarray a =
     (case shape a of
        [h, w] \<Rightarrow> Inr \<lparr>im_width = w, im_height = h, im_bands = 1, im_data = data a\<rparr>
      | [h, w, c] \<Rightarrow>
          (if 2 \<le> c \<and> c \<le> 4
           then Inr \<lparr>im_width = w, im_height = h, im_bands = c, im_data = data a\<rparr>
           else Inl TypeError)
      | _ \<Rightarrow> Inl TypeError)"

text \<open>
  \<open>Image.resize(size, Image.NEAREST)\<close> and \<open>Image.filter\<close>: library code, with the
  buffers they compute as parameters.  A resize to the size the image already has returns
  a copy of it; otherwise a target size with a zero side is refused.
\<close>

definition pil_resize ::
    "(nat pil_image \<Rightarrow> nat \<times> nat \<Rightarrow> nat list) \<Rightarrow> nat pil_image \<Rightarrow> nat \<times> nat \<Rightarrow> py_error + nat pil_image" where
  "pil_resize resample im sz =
     (if sz = (im_width im, im_height im) then Inr im
      else if fst sz = 0 \<or> snd sz = 0 then Inl ValueError
      else Inr \<lparr>im_width = fst sz, im_height = snd sz, im_bands = im_bands im,
                im_data = resample im sz\<rparr>)"

text \<open>
  \<open>Image.blend(im1, im2, alpha)\<close>, which \<open>ImageEnhance\<close> applies between its degenerate
  image and the input: interpolation for \<open>0 \<le> alpha \<le> 1\<close>, extrapolation with clipping
  otherwise.
\<close>

definition blend_byte :: "real \<Rightarrow> nat \<Rightarrow> nat \<Rightarrow> nat" where
  "blend_byte alpha in1 in2 =
     (let temp = real in1 + alpha * (real in2 - real in1)
      in if 0 \<le> alpha \<and> alpha \<le> 1 then astype_uint8 temp
         else if temp \<le> 0 then 0
         else if temp \<ge> 255 then 255
         else astype_uint8 temp)"

definition pil_blend :: "nat list \<Rightarrow> nat pil_image \<Rightarrow> real \<Rightarrow> nat pil_image" where
  "pil_blend degenerate im alpha =
     \<lparr>im_width = im_width im, im_height = im_height im, im_bands = im_bands im,
      im_data = map (\<lambda>(in1, in2). blend_byte alpha in1 in2) (zip degenerate (im_data im))\<rparr>"

section \<open>\<open>NoiseGradientGenerator\<close> (noise_gradient_generator.py) and fast_noise_generator.py\<close>

text \<open>
  The random sources are parameters: \<open>z i\<close> is the standard normal draw for the element at
  flat index \<open>i\<close>, \<open>u n\<close> the uniform draw in [0, 1) for pixel \<open>n\<close>, \<open>pois i lam\<close> the
  Poisson draw with mean \<open>lam\<close> for element \<open>i\<close>.  \<open>np.random.normal(loc, scale)\<close> is
  \<open>loc + scale * z\<close> and refuses a negative scale.
\<close>

definition np_random_normal :: "real \<Rightarrow> real \<Rightarrow> real \<Rightarrow> real" where
  "np_random_normal loc scale zdraw = loc + scale * zdraw"

definition apply_gaussian_noise :: "(nat \<Rightarrow> real) \<Rightarrow> nat pil_image \<Rightarrow> real \<Rightarrow> py_error + nat pil_image" where
  "apply_gaussian_noise z img intensity =
     (let img_array = np_array img
      in if intensity * 50 < 0 then Inl ValueError
         else
           (let noisy_array = clip_cast (map_enum_array
                  (\<lambda>i p. real p + np_random_normal 0 (intensity * 50) (z i)) img_array)
            in fromarray noisy_array))"

definition apply_noise_gradient :: "(nat \<Rightarrow> real) \<Rightarrow> nat pil_image \<Rightarrow> int \<Rightarrow> py_error + nat pil_image" where
  "apply_noise_gradient z img gradient_level =
     (let intensity = real_of_int gradient_level / 99.0;
          img_array = np_array img
      in if intensity * 25 < 0 then Inl ValueError
         else
           (let noisy_array = clip_cast (map_enum_array
                  (\<lambda>i p. real p + np_random_normal 0 (intensity * 25) (z i)) img_array)
            in fromarray noisy_array))"

text \<open>
  Salt and pepper: the mask has one draw per pixel (the first two axes); salt is written
  first and pepper after it, so pepper wins where both masks hold.
\<close>

definition apply_salt_pepper_noise :: "(nat \<Rightarrow> real) \<Rightarrow> nat pil_image \<Rightarrow> real \<Rightarrow> py_error + nat pil_image" where
  "apply_salt_pepper_noise u img intensity =
     (let img_array = np_array img;
          per_pixel = prod_list (drop 2 (shape img_array));
          noisy = map_enum_array
            (\<lambda>i p. let noise_mask = u (i div per_pixel)
                    in if noise_mask > 1 - intensity * 0.05 then 0
                       else if noise_mask < intensity * 0.05 then 255
                       else p) img_array
      in fromarray noisy)"

text \<open>
  Floats that may be infinite or not a number, for the division of the Poisson noise:
  numpy divides by zero with a warning, not an exception.  \<open>.astype(np.uint8)\<close> of a
  value that is not a number returns the byte 0; infinities are clipped before the
  conversion.
\<close>

datatype npfloat = Finite real | PosInf | NegInf | NaN

definition np_divide :: "real \<Rightarrow> real \<Rightarrow> npfloat" where
  "np_divide a b =
     (if b \<noteq> 0 then Finite (a / b)
      else if a = 0 then NaN
      else if a > 0 then PosInf
      else NegInf)"

fun np_clip_f :: "npfloat \<Rightarrow> real \<Rightarrow> real \<Rightarrow> npfloat" where
  "np_clip_f (Finite x) lo hi = Finite (np_clip x lo hi)"
| "np_clip_f PosInf lo hi = Finite hi"
| "np_clip_f NegInf lo hi = Finite lo"
| "np_clip_f NaN lo hi = NaN"

fun astype_uint8_f :: "npfloat \<Rightarrow> nat" where
  "astype_uint8_f (Finite x) = astype_uint8 x"
| "astype_uint8_f _ = 0"

definition apply_poisson_noise ::
    "(nat \<Rightarrow> real \<Rightarrow> nat) \<Rightarrow> nat pil_image \<Rightarrow> real \<Rightarrow> py_error + nat pil_image" where
  "apply_poisson_noise pois img intensity =
     (let img_array = map_array real (np_array img)
      in if list_ex (\<lambda>x. x * intensity * 0.1 < 0) (data img_array) then Inl ValueError
         else
           (let noisy_array = map_enum_array
                  (\<lambda>i x. np_divide (real (pois i (x * intensity * 0.1))) (intensity * 0.1))
                  img_array;
                noisy_array = map_array (\<lambda>x. astype_uint8_f (np_clip_f x 0 255)) noisy_array
            in fromarray noisy_array))"

definition apply_speckle_noise :: "(nat \<Rightarrow> real) \<Rightarrow> nat pil_image \<Rightarrow> real \<Rightarrow> py_error + nat pil_image" where
  "apply_speckle_noise z img intensity =
     (let img_array = map_array real (np_array img);
          noisy_array = map_enum_array
            (\<lambda>i x. let noise = z i * intensity * 20 in x + x * noise / 100) img_array
      in fromarray (clip_cast noisy_array))"

definition apply_blur_effect :: "(real \<Rightarrow> nat pil_image \<Rightarrow> nat list) \<Rightarrow> nat pil_image \<Rightarrow> real \<Rightarrow> nat pil_image" where
  "apply_blur_effect blur img intensity =
     (let blur_radius = intensity * 5
      in \<lparr>im_width = im_width img, im_height = im_height img, im_bands = im_bands img,
          im_data = blur blur_radius img\<rparr>)"

definition apply_pixelation ::
    "(nat pil_image \<Rightarrow> nat \<times> nat \<Rightarrow> nat list) \<Rightarrow> nat pil_image \<Rightarrow> real \<Rightarrow> py_error + nat pil_image" where
  "apply_pixelation nearest img intensity =
     (let original_size = (im_width img, im_height img);
          pixel_size = max 1 (py_int (intensity * 50));
          small_size = (nat (max 1 (int (fst original_size) div pixel_size)),
                        nat (max 1 (int (snd original_size) div pixel_size)))
      in then_do (pil_resize nearest img small_size) (\<lambda>resized.
         pil_resize nearest resized original_size))"

definition apply_pixel_manipulation ::
    "(nat pil_image \<Rightarrow> nat \<times> nat \<Rightarrow> nat list) \<Rightarrow> nat pil_image \<Rightarrow> int \<Rightarrow> py_error + nat pil_image" where
  "apply_pixel_manipulation nearest img gradient_level =
     (let intensity = real_of_int gradient_level / 99.0;
          original_size = (im_width img, im_height img);
          pixel_size = max 1 (py_int (intensity * 20) + 1);
          small_size = (nat (max 1 (int (fst original_size) div pixel_size)),
                        nat (max 1 (int (snd original_size) div pixel_size)))
      in then_do (pil_resize nearest img small_size) (\<lambda>resized.
         pil_resize nearest resized original_size))"

text \<open>
  \<open>apply_color_shift\<close> of the noise generator: \<open>random.uniform(-shift, shift)\<close> is
  \<open>-shift + 2 * shift * r\<close> for a draw \<open>r\<close> in [0, 1); the clipped sums are stored into
  the byte array.
\<close>

definition random_uniform :: "real \<Rightarrow> real \<Rightarrow> real \<Rightarrow> real" where
  "random_uniform a b r = a + (b - a) * r"

definition update_channel_bytes :: "nat \<Rightarrow> (nat \<Rightarrow> nat) \<Rightarrow> nat ndarray \<Rightarrow> py_error + nat ndarray" where
  "update_channel_bytes c f a =
     (if length (shape a) < 3 \<or> shape a ! 2 \<le> c then Inl IndexError
      else Inr (map_enum_array (\<lambda>i x. if axis2 (shape a) i = c then f x else x) a))"

definition apply_color_shift ::
    "real \<times> real \<times> real \<Rightarrow> nat pil_image \<Rightarrow> real \<Rightarrow> py_error + nat pil_image" where
  "apply_color_shift draws img intensity =
     (let img_array = np_array img
      in if length (shape img_array) = 3 then
           (case draws of (r0, r1, r2) \<Rightarrow>
              (let shift = intensity * 50;
                   r_shift = random_uniform (- shift) shift r0;
                   g_shift = random_uniform (- shift) shift r1;
                   b_shift = random_uniform (- shift) shift r2
               in then_do (update_channel_bytes 0
                     (\<lambda>p. astype_uint8 (np_clip (real p + r_shift) 0 255)) img_array) (\<lambda>a0.
                  then_do (update_channel_bytes 1
                     (\<lambda>p. astype_uint8 (np_clip (real p + g_shift) 0 255)) a0) (\<lambda>a1.
                  then_do (update_channel_bytes 2
                     (\<lambda>p. astype_uint8 (np_clip (real p + b_shift) 0 255)) a1) (\<lambda>a2.
                  fromarray a2)))))
         else fromarray img_array)"

text \<open>
  The three \<open>ImageEnhance\<close> variations blend the input with a degenerate image: black for
  brightness; for contrast and colour the degenerate buffer is computed by the library and
  is the parameter \<open>degenerate\<close>.
\<close>

definition apply_contrast_variation :: "(nat pil_image \<Rightarrow> nat list) \<Rightarrow> nat pil_image \<Rightarrow> real \<Rightarrow> nat pil_image" where
  "apply_contrast_variation degenerate img intensity =
     (let contrast_factor = 0.5 + intensity * 1.5
      in pil_blend (degenerate img) img contrast_factor)"

definition apply_brightness_variation :: "nat pil_image \<Rightarrow> real \<Rightarrow> nat pil_image" where
  "apply_brightness_variation img intensity =
     (let brightness_factor = 0.3 + intensity * 1.4
      in pil_blend (replicate (length (im_data img)) 0) img brightness_factor)"

definition apply_saturation_variation :: "(nat pil_image \<Rightarrow> nat list) \<Rightarrow> nat pil_image \<Rightarrow> real \<Rightarrow> nat pil_image" where
  "apply_saturation_variation degenerate img intensity =
     (let saturation_factor = intensity * 2.0
      in pil_blend (degenerate img) img saturation_factor)"


section \<open>\<open>ColorBlindnessSimulator\<close> (colorblind_simulation.py)\<close>

type_synonym row3 = "real \<times> real \<times> real"
type_synonym matrix3 = "row3 \<times> row3 \<times> row3"

definition protanopia_matrix :: matrix3 where
  "protanopia_matrix =
     ((0.56667, 0.43333, 0.00000),
      (0.55833, 0.44167, 0.00000),
      (0.00000, 0.24167, 0.75833))"

definition deuteranopia_matrix :: matrix3 where
  "deuteranopia_matrix =
     ((0.62500, 0.37500, 0.00000),
      (0.70000, 0.30000, 0.00000),
      (0.00000, 0.30000, 0.70000))"

definition tritanopia_matrix :: matrix3 where
  "tritanopia_matrix =
     ((0.95000, 0.05000, 0.00000),
      (0.00000, 0.43333, 0.56667),
      (0.00000, 0.47500, 0.52500))"

definition improved_protanopia :: matrix3 where
  "improved_protanopia =
     ((0.152286, 1.052583, -0.204868),
      (0.114503, 0.786281, 0.099216),
      (-0.003882, -0.048116, 1.051998))"

definition improved_deuteranopia :: matrix3 where
  "improved_deuteranopia =
     ((0.367322, 0.860646, -0.227968),
      (0.280085, 0.672501, 0.047413),
      (-0.011820, 0.042940, 0.968881))"

definition improved_tritanopia :: matrix3 where
  "improved_tritanopia =
     ((1.255528, -0.076749, -0.178779),
      (-0.078411, 0.930809, 0.147602),
      (0.004733, 0.691367, 0.303900))"

text \<open>
  \<open>reshape(-1, 3)\<close> cuts the buffer into pixels of three values; \<open>np.dot(pixels, matrix.T)\<close>
  maps the pixel \<open>p\<close> to the vector of the products of \<open>p\<close> with the rows of the matrix.
\<close>

fun to_pixels :: "'a list \<Rightarrow> ('a \<times> 'a \<times> 'a) list" where
  "to_pixels (r # g # b # rest) = (r, g, b) # to_pixels rest"
| "to_pixels _ = []"

fun from_pixels :: "('a \<times> 'a \<times> 'a) list \<Rightarrow> 'a list" where
  "from_pixels [] = []"
| "from_pixels ((r, g, b) # rest) = r # g # b # from_pixels rest"

definition dot_row :: "row3 \<Rightarrow> row3 \<Rightarrow> real" where
  "dot_row p row = (case p of (r, g, b) \<Rightarrow> case row of (m0, m1, m2) \<Rightarrow> r * m0 + g * m1 + b * m2)"

definition dot_matrix_T :: "row3 \<Rightarrow> matrix3 \<Rightarrow> row3" where
  "dot_matrix_T p m = (case m of (row0, row1, row2) \<Rightarrow> (dot_row p row0, dot_row p row1, dot_row p row2))"

definition map_pixel :: "('a \<Rightarrow> 'b) \<Rightarrow> 'a \<times> 'a \<times> 'a \<Rightarrow> 'b \<times> 'b \<times> 'b" where
  "map_pixel f p = (case p of (r, g, b) \<Rightarrow> (f r, f g, f b))"

definition blend_pixel :: "real \<Rightarrow> row3 \<Rightarrow> row3 \<Rightarrow> row3" where
  "blend_pixel sev p t =
     (case p of (r, g, b) \<Rightarrow> case t of (tr, tg, tb) \<Rightarrow>
        ((1 - sev) * r + sev * tr, (1 - sev) * g + sev * tg, (1 - sev) * b + sev * tb))"

definition apply_colorblindness_matrix :: "nat pil_image \<Rightarrow> matrix3 \<Rightarrow> real \<Rightarrow> py_error + nat pil_image" where
  "apply_colorblindness_matrix img matrix sev =
     (let img_array = map_array (\<lambda>p. real p / 255.0) (np_array img);
          original_shape = shape img_array
      in if length original_shape = 3 \<and> original_shape ! 2 = 3 then
           (let pixels = to_pixels (data img_array);
                transformed_pixels = map (\<lambda>p. dot_matrix_T p matrix) pixels;
                transformed_pixels =
                  (if sev < 1.0
                   then map (\<lambda>(p, t). blend_pixel sev p t) (zip pixels transformed_pixels)
                   else transformed_pixels);
                transformed_pixels = map (map_pixel (\<lambda>x. np_clip x 0 1)) transformed_pixels;
                transformed_image = map (map_pixel (\<lambda>x. astype_uint8 (x * 255))) transformed_pixels
            in fromarray \<lparr>shape = original_shape, data = from_pixels transformed_image\<rparr>)
         else Inl ValueError)"

definition simulate_protanopia :: "nat pil_image \<Rightarrow> real \<Rightarrow> bool \<Rightarrow> py_error + nat pil_image" where
  "simulate_protanopia img sev improved =
     (let matrix = (if improved then improved_protanopia else protanopia_matrix)
      in apply_colorblindness_matrix img matrix sev)"

definition simulate_deuteranopia :: "nat pil_image \<Rightarrow> real \<Rightarrow> bool \<Rightarrow> py_error + nat pil_image" where
  "simulate_deuteranopia img sev improved =
     (let matrix = (if improved then improved_deuteranopia else deuteranopia_matrix)
      in apply_colorblindness_matrix img matrix sev)"

definition simulate_tritanopia :: "nat pil_image \<Rightarrow> real \<Rightarrow> bool \<Rightarrow> py_error + nat pil_image" where
  "simulate_tritanopia img sev improved =
     (let matrix = (if improved then improved_tritanopia else tritanopia_matrix)
      in apply_colorblindness_matrix img matrix sev)"


text \<open>
  The sum of a row of a matrix, the test that every row of a matrix sums to 1 up to a
  tolerance, and the six dichromacy matrices of the simulator.
\<close>

definition row_sum :: "row3 \<Rightarrow> real" where
  "row_sum row = (case row of (m0, m1, m2) \<Rightarrow> m0 + m1 + m2)"

definition rows_near_one :: "real \<Rightarrow> matrix3 \<Rightarrow> bool" where
  "rows_near_one tol m =
     (case m of (row0, row1, row2) \<Rightarrow>
        \<bar>row_sum row0 - 1\<bar> \<le> tol \<and> \<bar>row_sum row1 - 1\<bar> \<le> tol \<and> \<bar>row_sum row2 - 1\<bar> \<le> tol)"

definition dichromacy_matrices :: "matrix3 list" where
  "dichromacy_matrices =
     [protanopia_matrix, deuteranopia_matrix, tritanopia_matrix,
      improved_protanopia, improved_deuteranopia, improved_tritanopia]"


text \<open>Two PIL images of the same width, height and number of bands.\<close>

definition same_size :: "'a pil_image \<Rightarrow> 'b pil_image \<Rightarrow> bool" where
  "same_size a b =
     (im_width a = im_width b \<and> im_height a = im_height b \<and> im_bands a = im_bands b)"

section \<open>Properties of the boundary analysis\<close>

lemma eval_steps_Inr:
  "n \<noteq> 1 \<Longrightarrow> \<exists>ps. eval_steps cmp n xs = Inr ps \<and> map p_step ps = map fst xs \<and>
     map p_severity ps = map (\<lambda>(s, _). real s / (real n - 1)) xs \<and>
     map p_success ps = map (\<lambda>(_, img). map_option (\<lambda>(c, f). c \<and> f) (cmp img)) xs"
  by (induction xs) (auto simp: Let_def split: option.splits)

lemma find_failure_threshold_first:
  "find_failure_threshold ps =
     (case find (\<lambda>p. p_success p = Some False) ps of Some p \<Rightarrow> p_severity p | None \<Rightarrow> 1)"
  by (induction ps) (auto split: option.splits)

lemma find_failure_threshold_never:
  "\<forall>p \<in> set ps. p_success p \<noteq> Some False \<Longrightarrow> find_failure_threshold ps = 1"
  by (induction ps) (auto split: option.splits)

lemma threshold_loop_all_success:
  "\<forall>r \<in> set rs. tr_success r \<Longrightarrow> threshold_loop rs sc fc = None"
  by (induction rs arbitrary: sc fc) auto

lemma always_true_threshold:
  assumes "2 \<le> length files"
  shows "\<exists>r. evaluate_colorblind_sequence files (\<lambda>_. Some (True, True)) = Inr r \<and>
             failure_threshold r = 1 \<and> p_severity (last (predictions r)) = 1"
proof -
  let ?n = "length files"
  let ?xs = "enumerate 0 files"
  from assms have n1: "?n \<noteq> 1" by simp
  from eval_steps_Inr [OF n1, of "\<lambda>_. Some (True, True)" ?xs]
  obtain ps where ps: "eval_steps (\<lambda>_. Some (True, True)) ?n ?xs = Inr ps"
    and sev: "map p_severity ps = map (\<lambda>(s, _). real s / (real ?n - 1)) ?xs"
    and suc: "map p_success ps = map (\<lambda>(_, img). map_option (\<lambda>(c, f). c \<and> f) (Some (True, True))) ?xs"
    by blast
  have len: "length ps = ?n" using sev by (metis length_enumerate length_map)
  have "\<forall>p \<in> set ps. p_success p = Some True"
  proof
    fix p assume "p \<in> set ps"
    then have "p_success p \<in> set (map p_success ps)" by simp
    then show "p_success p = Some True" unfolding suc by auto
  qed
  then have ft: "find_failure_threshold ps = 1"
    by (intro find_failure_threshold_never) simp
  have ne: "ps \<noteq> []" using len assms by auto
  have "p_severity (last ps) = last (map p_severity ps)" using ne by (simp add: last_map)
  also have "\<dots> = (map (\<lambda>(s, _). real s / (real ?n - 1)) ?xs) ! (?n - 1)"
    unfolding sev using assms
    by (subst last_conv_nth) (auto simp: enumerate_eq_zip)
  also have "\<dots> = real (?n - 1) / (real ?n - 1)"
    using assms by (simp add: nth_enumerate_eq)
  also have "\<dots> = 1" using assms by (simp add: of_nat_diff)
  finally have "p_severity (last ps) = 1" .
  with ps ft show ?thesis by (simp add: evaluate_colorblind_sequence_def)
qed

lemma always_false_threshold:
  assumes "2 \<le> length files"
  shows "\<exists>r. evaluate_colorblind_sequence files (\<lambda>_. Some (False, False)) = Inr r \<and>
             failure_threshold r = 0"
proof -
  from assms obtain f fs where files: "files = f # fs" by (cases files) auto
  let ?n = "length files"
  from assms have n1: "?n \<noteq> 1" by simp
  from eval_steps_Inr [OF n1, of "\<lambda>_. Some (False, False)" "enumerate 1 fs"]
  obtain ps where ps: "eval_steps (\<lambda>_. Some (False, False)) ?n (enumerate 1 fs) = Inr ps"
    by blast
  show ?thesis using ps n1 unfolding evaluate_colorblind_sequence_def files
    by (simp add: Let_def)
qed

lemma vb_all_success:
  "\<forall>r \<in> set rs. tr_success r \<Longrightarrow> vb_failure_threshold (vb_find_failure_threshold rs) = None"
  by (simp add: vb_find_failure_threshold_def threshold_loop_all_success Let_def)

lemma eval_steps_threshold:
  assumes "n \<noteq> 1"
  shows "\<exists>ps. eval_steps cmp n xs = Inr ps
      \<and> map p_success ps = map (\<lambda>(s, img). map_option (\<lambda>(c, f). c \<and> f) (cmp img)) xs
      \<and> find_failure_threshold ps =
          (case find (\<lambda>(s, img). comparator_fails cmp img) xs of
             Some (s, img) \<Rightarrow> real s / (real n - 1)
           | None \<Rightarrow> 1)"
  using assms
  by (induction xs) (auto simp: Let_def comparator_fails_def split: option.splits)

lemma evaluate_threshold:
  assumes "length files \<noteq> 1"
  shows "\<exists>r. evaluate_colorblind_sequence files cmp = Inr r
      \<and> map p_success (predictions r) = map (\<lambda>img. map_option (\<lambda>(c, f). c \<and> f) (cmp img)) files
      \<and> failure_threshold r =
          (case find (\<lambda>(s, img). comparator_fails cmp img) (enumerate 0 files) of
             Some (s, img) \<Rightarrow> real s / (real (length files) - 1)
           | None \<Rightarrow> 1)"
proof -
  from eval_steps_threshold [OF assms, of cmp "enumerate 0 files"]
  obtain ps where ps: "eval_steps cmp (length files) (enumerate 0 files) = Inr ps"
    and su: "map p_success ps =
       map (\<lambda>(s, img). map_option (\<lambda>(c, f). c \<and> f) (cmp img)) (enumerate 0 files)"
    and th: "find_failure_threshold ps =
          (case find (\<lambda>(s, img). comparator_fails cmp img) (enumerate 0 files) of
             Some (s, img) \<Rightarrow> real s / (real (length files) - 1)
           | None \<Rightarrow> 1)"
    by blast
  have "map (\<lambda>(s, img). map_option (\<lambda>(c, f). c \<and> f) (cmp img)) (enumerate 0 files) =
        map (\<lambda>img. map_option (\<lambda>(c, f). c \<and> f) (cmp img)) files"
    by (rule nth_equalityI) (simp_all add: nth_enumerate_eq)
  with su have su': "map p_success ps = map (\<lambda>img. map_option (\<lambda>(c, f). c \<and> f) (cmp img)) files"
    by simp
  show ?thesis using ps su' th by (simp add: evaluate_colorblind_sequence_def)
qed

lemma evaluate_single_file:
  "evaluate_colorblind_sequence [f] cmp = Inl ZeroDivisionError"
  by (simp add: evaluate_colorblind_sequence_def)

lemma first_run_skip:
  "tr_success r \<Longrightarrow> first_run_of_three (r # xs) = first_run_of_three xs"
  by (cases xs rule: first_run_of_three.cases) simp_all

lemma first_run_skip_second:
  "tr_success r \<Longrightarrow> first_run_of_three (f # r # xs) = first_run_of_three xs"
  by (cases xs) (simp_all add: first_run_skip)

lemma threshold_loop_run:
  "threshold_loop rs sc 0 = first_run_of_three rs
   \<and> (\<forall>f. \<not> tr_success f \<longrightarrow>
          threshold_loop rs sc (Suc 0) = first_run_of_three (f # rs))
   \<and> (\<forall>f g. \<not> tr_success f \<and> \<not> tr_success g \<longrightarrow>
          threshold_loop rs sc (Suc (Suc 0)) = first_run_of_three (f # g # rs))"
proof (induction rs arbitrary: sc)
  case Nil
  then show ?case by simp
next
  case (Cons r rs)
  show ?case
  proof (cases "tr_success r")
    case True
    from Cons.IH [of "sc + 1"] have "threshold_loop rs (sc + 1) 0 = first_run_of_three rs"
      by blast
    then show ?thesis using True by (simp add: first_run_skip first_run_skip_second)
  next
    case False
    from Cons.IH [of 0]
    have i1: "\<And>f. \<not> tr_success f \<Longrightarrow>
        threshold_loop rs 0 (Suc 0) = first_run_of_three (f # rs)"
      and i2: "\<And>f g. \<not> tr_success f \<Longrightarrow> \<not> tr_success g \<Longrightarrow>
        threshold_loop rs 0 (Suc (Suc 0)) = first_run_of_three (f # g # rs)"
      by blast+
    have a: "threshold_loop (r # rs) sc 0 = first_run_of_three (r # rs)"
      using False i1 [OF False] by simp
    have b: "threshold_loop (r # rs) sc (Suc 0) = first_run_of_three (f # r # rs)"
      if "\<not> tr_success f" for f
      using False i2 [OF that False] by simp
    have c: "threshold_loop (r # rs) sc (Suc (Suc 0)) = first_run_of_three (f # g # r # rs)"
      if "\<not> tr_success f" "\<not> tr_success g" for f g
      using False that by simp
    show ?thesis using a b c by blast
  qed
qed

lemma vb_threshold_run:
  "vb_failure_threshold (vb_find_failure_threshold rs) = first_run_of_three (sort_key tr_level rs)"
  using threshold_loop_run [of "sort_key tr_level rs" 0]
  by (simp add: vb_find_failure_threshold_def Let_def)

lemma first_run_Some:
  "first_run_of_three s = Some t \<Longrightarrow>
     \<exists>i. i + 2 < length s \<and> \<not> tr_success (s ! i) \<and> \<not> tr_success (s ! (i + 1))
        \<and> \<not> tr_success (s ! (i + 2)) \<and> t = tr_level (s ! (i + 2)) - 2"
proof (induction s rule: first_run_of_three.induct)
  case (1 a b c rest)
  show ?case
  proof (cases "\<not> tr_success a \<and> \<not> tr_success b \<and> \<not> tr_success c")
    case True
    with 1(2) have "t = tr_level c - 2" by simp
    with True show ?thesis by (intro exI [of _ 0]) simp
  next
    case False
    with 1 obtain i where "i + 2 < length (b # c # rest)" "\<not> tr_success ((b # c # rest) ! i)"
      "\<not> tr_success ((b # c # rest) ! (i + 1))" "\<not> tr_success ((b # c # rest) ! (i + 2))"
      "t = tr_level ((b # c # rest) ! (i + 2)) - 2"
      by auto
    then show ?thesis by (intro exI [of _ "Suc i"]) simp
  qed
qed simp_all

lemma first_run_None:
  "first_run_of_three s = None \<Longrightarrow> i + 2 < length s \<Longrightarrow>
     tr_success (s ! i) \<or> tr_success (s ! (i + 1)) \<or> tr_success (s ! (i + 2))"
proof (induction s arbitrary: i rule: first_run_of_three.induct)
  case (1 a b c rest)
  show ?case
  proof (cases i)
    case 0
    with 1(2) show ?thesis by (auto split: if_splits)
  next
    case (Suc j)
    from 1(2) have n: "first_run_of_three (b # c # rest) = None"
      and f: "\<not> (\<not> tr_success a \<and> \<not> tr_success b \<and> \<not> tr_success c)"
      by (auto split: if_splits)
    from 1(3) Suc have "j + 2 < length (b # c # rest)" by simp
    from "1.IH" [OF f n this] show ?thesis using Suc by simp
  qed
qed simp_all

text \<open>
  Claim C2, as the code has it.  In \<open>ColorBlindnessEvaluator\<close> every step that answers is
  recorded with the flag \<open>is_correct AND is_confident\<close>, a step whose call raised carries
  no flag, and the failure threshold is the severity of the first step whose flag is
  false, or 1.0 (the severity of the last step) when there is none; over at least two
  files a comparator that always answers (True, True) gives 1.0 and one that always
  answers (False, False) gives 0.  \<open>VisualBoundaryEvaluator.find_failure_threshold\<close>
  reports a threshold exactly when the results, in level order, contain three consecutive
  failures, and None otherwise, in particular when every result succeeded.
\<close>

theorem failure_threshold_first_failure_or_max:
  "find_failure_threshold ps =
     (case find (\<lambda>p. p_success p = Some False) ps of Some p \<Rightarrow> p_severity p | None \<Rightarrow> 1)
   \<and> (length files \<noteq> 1 \<longrightarrow>
        (\<exists>r. evaluate_colorblind_sequence files cmp = Inr r
           \<and> map p_success (predictions r) =
               map (\<lambda>img. map_option (\<lambda>(is_correct, is_confident). is_correct \<and> is_confident)
                      (cmp img)) files
           \<and> failure_threshold r =
               (case find (\<lambda>(s, img). comparator_fails cmp img) (enumerate 0 files) of
                  Some (s, img) \<Rightarrow> real s / (real (length files) - 1)
                | None \<Rightarrow> 1)))
   \<and> (2 \<le> length files \<longrightarrow>
        (\<exists>r. evaluate_colorblind_sequence files (\<lambda>_. Some (True, True)) = Inr r \<and>
             failure_threshold r = 1 \<and> p_severity (last (predictions r)) = 1)
      \<and> (\<exists>r. evaluate_colorblind_sequence files (\<lambda>_. Some (False, False)) = Inr r \<and>
             failure_threshold r = 0))
   \<and> vb_failure_threshold (vb_find_failure_threshold rs) =
        first_run_of_three (sort_key tr_level rs)
   \<and> (\<forall>t. vb_failure_threshold (vb_find_failure_threshold rs) = Some t \<longrightarrow>
        (\<exists>i. i + 2 < length rs
           \<and> \<not> tr_success (sort_key tr_level rs ! i)
           \<and> \<not> tr_success (sort_key tr_level rs ! (i + 1))
           \<and> \<not> tr_success (sort_key tr_level rs ! (i + 2))
           \<and> t = tr_level (sort_key tr_level rs ! (i + 2)) - 2))
   \<and> (vb_failure_threshold (vb_find_failure_threshold rs) = None \<longrightarrow>
        (\<forall>i. i + 2 < length rs \<longrightarrow>
           tr_success (sort_key tr_level rs ! i)
           \<or> tr_success (sort_key tr_level rs ! (i + 1))
           \<or> tr_success (sort_key tr_level rs ! (i + 2))))
   \<and> ((\<forall>r \<in> set rs. tr_success r) \<longrightarrow>
        vb_failure_threshold (vb_find_failure_threshold rs) = None)"
proof -
  note c1 = find_failure_threshold_first [of ps]
  have c2: "length files \<noteq> 1 \<longrightarrow>
        (\<exists>r. evaluate_colorblind_sequence files cmp = Inr r
           \<and> map p_success (predictions r) =
               map (\<lambda>img. map_option (\<lambda>(is_correct, is_confident). is_correct \<and> is_confident)
                      (cmp img)) files
           \<and> failure_threshold r =
               (case find (\<lambda>(s, img). comparator_fails cmp img) (enumerate 0 files) of
                  Some (s, img) \<Rightarrow> real s / (real (length files) - 1)
                | None \<Rightarrow> 1))"
    using evaluate_threshold [of files cmp] by blast
  have c3: "2 \<le> length files \<longrightarrow>
        (\<exists>r. evaluate_colorblind_sequence files (\<lambda>_. Some (True, True)) = Inr r \<and>
             failure_threshold r = 1 \<and> p_severity (last (predictions r)) = 1)
      \<and> (\<exists>r. evaluate_colorblind_sequence files (\<lambda>_. Some (False, False)) = Inr r \<and>
             failure_threshold r = 0)"
    using always_true_threshold [of files] always_false_threshold [of files] by blast
  note c4 = vb_threshold_run [of rs]
  have len: "length (sort_key tr_level rs) = length rs" by simp
  have c5: "\<forall>t. vb_failure_threshold (vb_find_failure_threshold rs) = Some t \<longrightarrow>
        (\<exists>i. i + 2 < length rs
           \<and> \<not> tr_success (sort_key tr_level rs ! i)
           \<and> \<not> tr_success (sort_key tr_level rs ! (i + 1))
           \<and> \<not> tr_success (sort_key tr_level rs ! (i + 2))
           \<and> t = tr_level (sort_key tr_level rs ! (i + 2)) - 2)"
    unfolding c4 using first_run_Some [of "sort_key tr_level rs"] len by metis
  have c6: "vb_failure_threshold (vb_find_failure_threshold rs) = None \<longrightarrow>
        (\<forall>i. i + 2 < length rs \<longrightarrow>
           tr_success (sort_key tr_level rs ! i)
           \<or> tr_success (sort_key tr_level rs ! (i + 1))
           \<or> tr_success (sort_key tr_level rs ! (i + 2)))"
    unfolding c4 using first_run_None [of "sort_key tr_level rs"] len by metis
  have c7: "(\<forall>r \<in> set rs. tr_success r) \<longrightarrow>
        vb_failure_threshold (vb_find_failure_threshold rs) = None"
    using vb_all_success [of rs] by blast
  show ?thesis by (intro conjI c1 c2 c3 c4 c5 c6 c7)
qed

theorem failure_threshold_first_failure_or_max_witness:
  "(\<exists>r. evaluate_colorblind_sequence [''a'', ''b'', ''c'', ''d'']
          (\<lambda>img. if img = ''a'' then Some (True, True)
                 else if img = ''b'' then None
                 else if img = ''c'' then Some (True, False)
                 else Some (False, False)) = Inr r
        \<and> map p_success (predictions r) = [Some True, None, Some False, Some False]
        \<and> failure_threshold r = 2 / 3)
   \<and> (\<exists>r. evaluate_colorblind_sequence [''a'', ''b'', ''c''] (\<lambda>_. Some (True, True)) = Inr r \<and>
             failure_threshold r = 1 \<and> p_severity (last (predictions r)) = 1)
   \<and> (\<exists>r. evaluate_colorblind_sequence [''a'', ''b'', ''c''] (\<lambda>_. Some (False, False)) = Inr r \<and>
             failure_threshold r = 0)
   \<and> vb_failure_threshold (vb_find_failure_threshold
        [\<lparr>tr_level = 40, tr_success = False, tr_confidence = 0.1\<rparr>,
         \<lparr>tr_level = 0, tr_success = False, tr_confidence = 0.9\<rparr>,
         \<lparr>tr_level = 10, tr_success = True, tr_confidence = 0.8\<rparr>,
         \<lparr>tr_level = 20, tr_success = False, tr_confidence = 0.3\<rparr>,
         \<lparr>tr_level = 30, tr_success = False, tr_confidence = 0.2\<rparr>,
         \<lparr>tr_level = 50, tr_success = True, tr_confidence = 0.7\<rparr>]) = Some 38
   \<and> vb_failure_threshold (vb_find_failure_threshold
        [\<lparr>tr_level = 0, tr_success = False, tr_confidence = 0.9\<rparr>,
         \<lparr>tr_level = 10, tr_success = True, tr_confidence = 0.8\<rparr>]) = None
   \<and> vb_failure_threshold (vb_find_failure_threshold
        [\<lparr>tr_level = 0, tr_success = True, tr_confidence = 0.9\<rparr>,
         \<lparr>tr_level = 10, tr_success = True, tr_confidence = 0.8\<rparr>]) = None"
proof -
  let ?cmp = "\<lambda>img. if img = ''a'' then Some (True, True)
                 else if img = ''b'' then None
                 else if img = ''c'' then Some (True, False)
                 else Some (False, False)"
  let ?rs = "[\<lparr>tr_level = 40, tr_success = False, tr_confidence = 0.1\<rparr>,
         \<lparr>tr_level = 0, tr_success = False, tr_confidence = 0.9\<rparr>,
         \<lparr>tr_level = 10, tr_success = True, tr_confidence = 0.8\<rparr>,
         \<lparr>tr_level = 20, tr_success = False, tr_confidence = 0.3\<rparr>,
         \<lparr>tr_level = 30, tr_success = False, tr_confidence = 0.2\<rparr>,
         \<lparr>tr_level = 50, tr_success = True, tr_confidence = 0.7\<rparr>]"
  have l4: "length [''a'', ''b'', ''c'', ''d''] \<noteq> 1" by simp
  have l3: "2 \<le> length [''a'', ''b'', ''c'']" by simp
  note t1 = failure_threshold_first_failure_or_max
      [where files = "[''a'', ''b'', ''c'', ''d'']" and cmp = ?cmp and rs = ?rs]
  from t1 l4 obtain r where r: "evaluate_colorblind_sequence [''a'', ''b'', ''c'', ''d''] ?cmp = Inr r"
    "map p_success (predictions r) =
       map (\<lambda>img. map_option (\<lambda>(is_correct, is_confident). is_correct \<and> is_confident) (?cmp img))
         [''a'', ''b'', ''c'', ''d'']"
    "failure_threshold r =
       (case find (\<lambda>(s, img). comparator_fails ?cmp img) (enumerate 0 [''a'', ''b'', ''c'', ''d'']) of
          Some (s, img) \<Rightarrow> real s / (real (length [''a'', ''b'', ''c'', ''d'']) - 1)
        | None \<Rightarrow> 1)"
    by blast
  have w1: "\<exists>r. evaluate_colorblind_sequence [''a'', ''b'', ''c'', ''d''] ?cmp = Inr r
        \<and> map p_success (predictions r) = [Some True, None, Some False, Some False]
        \<and> failure_threshold r = 2 / 3"
    using r by (intro exI [of _ r]) (simp add: comparator_fails_def)
  note t2 = failure_threshold_first_failure_or_max
      [where files = "[''a'', ''b'', ''c'']"
        and rs = "[\<lparr>tr_level = 0, tr_success = False, tr_confidence = 0.9\<rparr>,
                   \<lparr>tr_level = 10, tr_success = True, tr_confidence = 0.8\<rparr>]"]
  from t2 l3 have w2: "\<exists>r. evaluate_colorblind_sequence [''a'', ''b'', ''c''] (\<lambda>_. Some (True, True)) = Inr r \<and>
             failure_threshold r = 1 \<and> p_severity (last (predictions r)) = 1" by blast
  from t2 l3 have w3: "\<exists>r. evaluate_colorblind_sequence [''a'', ''b'', ''c''] (\<lambda>_. Some (False, False)) = Inr r \<and>
             failure_threshold r = 0" by blast
  from t1 have "vb_failure_threshold (vb_find_failure_threshold ?rs) =
      first_run_of_three (sort_key tr_level ?rs)" by blast
  then have w4: "vb_failure_threshold (vb_find_failure_threshold ?rs) = Some 38" by simp
  from t2 have "vb_failure_threshold (vb_find_failure_threshold
        [\<lparr>tr_level = 0, tr_success = False, tr_confidence = 0.9\<rparr>,
         \<lparr>tr_level = 10, tr_success = True, tr_confidence = 0.8\<rparr>]) =
      first_run_of_three (sort_key tr_level
        [\<lparr>tr_level = 0, tr_success = False, tr_confidence = 0.9\<rparr>,
         \<lparr>tr_level = 10, tr_success = True, tr_confidence = 0.8\<rparr>])" by blast
  then have w5: "vb_failure_threshold (vb_find_failure_threshold
        [\<lparr>tr_level = 0, tr_success = False, tr_confidence = 0.9\<rparr>,
         \<lparr>tr_level = 10, tr_success = True, tr_confidence = 0.8\<rparr>]) = None" by simp
  have w6: "vb_failure_threshold (vb_find_failure_threshold
        [\<lparr>tr_level = 0, tr_success = True, tr_confidence = 0.9\<rparr>,
         \<lparr>tr_level = 10, tr_success = True, tr_confidence = 0.8\<rparr>]) = None"
    using failure_threshold_first_failure_or_max
      [where rs = "[\<lparr>tr_level = 0, tr_success = True, tr_confidence = 0.9\<rparr>,
                    \<lparr>tr_level = 10, tr_success = True, tr_confidence = 0.8\<rparr>]"
        and ps = "[]" and files = "[''a'', ''b'', ''c'']" and cmp = "\<lambda>_. None"]
    by simp
  show ?thesis by (intro conjI w1 w2 w3 w4 w5 w6)
qed

text \<open>
  The claim as stated fails on \<open>VisualBoundaryEvaluator.find_failure_threshold\<close>: with
  every tested level successful the threshold is None, not the maximum level, and with
  every tested level of 0, 10, 20 failing it is 18, not 0.
\<close>

theorem vb_failure_threshold_null_counterexample:
  "vb_failure_threshold (vb_find_failure_threshold
     [\<lparr>tr_level = 0, tr_success = True, tr_confidence = 0.9\<rparr>,
      \<lparr>tr_level = 10, tr_success = True, tr_confidence = 0.9\<rparr>,
      \<lparr>tr_level = 20, tr_success = True, tr_confidence = 0.9\<rparr>]) = None
   \<and> vb_failure_threshold (vb_find_failure_threshold
     [\<lparr>tr_level = 0, tr_success = False, tr_confidence = 0.1\<rparr>,
      \<lparr>tr_level = 10, tr_success = False, tr_confidence = 0.1\<rparr>,
      \<lparr>tr_level = 20, tr_success = False, tr_confidence = 0.1\<rparr>]) = Some 18"
  by (simp add: vb_find_failure_threshold_def)

section \<open>Properties of the photometric degradations\<close>

lemma length_map_enum [simp]: "length (map_enum f xs) = length xs"
  by (simp add: map_enum_def)

lemma nth_map_enum [simp]: "i < length xs \<Longrightarrow> map_enum f xs ! i = f i (xs ! i)"
  by (simp add: map_enum_def nth_enumerate_eq)



lemma map_map_enum: "map f (map_enum g xs) = map_enum (\<lambda>i x. f (g i x)) xs"
  by (rule nth_equalityI) simp_all

lemma map_enum_map: "map_enum f (map g xs) = map_enum (\<lambda>i x. f i (g x)) xs"
  by (rule nth_equalityI) simp_all

lemma map_enum_const: "map_enum (\<lambda>i. f) xs = map f xs"
  by (rule nth_equalityI) simp_all

lemma astype_uint8_clip_le: "astype_uint8 (np_clip x 0 255) \<le> 255"
proof -
  have "astype_uint8 (np_clip x 0 255) < 256" by (simp add: astype_uint8_def)
  then show ?thesis by simp
qed

lemma valid_bytes_clip_cast: "valid_bytes (data (clip_cast a))"
  by (simp add: valid_bytes_def clip_cast_def map_array_def list_all_iff astype_uint8_clip_le)


section \<open>Properties of the gradient sequencing\<close>

lemma gradient_param_first: "gradient_param gc b 0 rng = fst rng"
  by (simp add: gradient_param_def split: prod.splits)

lemma gradient_param_last: "2 \<le> gc \<Longrightarrow> gradient_param gc b (gc - 1) rng = snd rng"
  by (simp add: gradient_param_def split: prod.splits)

text \<open>
  Claim C7.  For every parameter range and every step count (a sequence has a first and a
  last index, so at least two steps; the generator uses 100), index 0 receives exactly the
  minimum and index \<open>gradient_count - 1\<close> exactly the maximum, whatever band the index
  lies in and whatever the random draw; no interpolation is applied at these two indices.
\<close>

theorem gradient_endpoints_exact:
  assumes "2 \<le> gradient_count"
  shows "gradient_param gradient_count b 0 (min_val, max_val) = min_val
       \<and> gradient_param gradient_count b (gradient_count - 1) (min_val, max_val) = max_val
       \<and> length (gradient_sequence gradient_count beta param_ranges) = nat gradient_count
       \<and> gradient_sequence gradient_count beta param_ranges ! 0 =
           map (\<lambda>(name, mn, mx). (name, mn)) param_ranges
       \<and> gradient_sequence gradient_count beta param_ranges ! (nat gradient_count - 1) =
           map (\<lambda>(name, mn, mx). (name, mx)) param_ranges"
proof -
  have n: "0 < nat gradient_count" "nat gradient_count - 1 < nat gradient_count"
    using assms by simp_all
  have last_i: "int (nat gradient_count - 1) = gradient_count - 1" using assms by simp
  have s0: "gradient_sequence gradient_count beta param_ranges ! 0 =
           map (\<lambda>(name, mn, mx). (name, mn)) param_ranges"
    using n(1) by (simp add: gradient_sequence_def gradient_params_def gradient_param_first
        split_def)
  have sl: "gradient_sequence gradient_count beta param_ranges ! (nat gradient_count - 1) =
           map (\<lambda>(name, mn, mx). (name, mx)) param_ranges"
    unfolding gradient_sequence_def gradient_params_def
    using n(2) assms
    by (simp add: last_i split_def gradient_param_last)
  show ?thesis
    using s0 sl assms by (simp add: gradient_param_first gradient_param_last gradient_sequence_def)
qed

theorem gradient_endpoints_exact_witness:
  "gradient_param 100 (1/2) 0 (3, 7) = 3 \<and> gradient_param 100 (1/2) 99 (3, 7) = 7
   \<and> gradient_param 30 (1/2) 29 (3, 7) = 7 \<and> gradient_param 50 (1/2) 49 (3, 7) = 7
   \<and> gradient_param 70 (1/2) 69 (3, 7) = 7 \<and> gradient_param 10 (1/2) 9 (3, 7) = 7"
  using gradient_endpoints_exact [of 100 "1/2" 3 7]
        gradient_endpoints_exact [of 30 "1/2" 3 7]
        gradient_endpoints_exact [of 50 "1/2" 3 7]
        gradient_endpoints_exact [of 70 "1/2" 3 7]
        gradient_endpoints_exact [of 10 "1/2" 3 7]
  by simp

section \<open>Properties of the colour-space transform\<close>

lemma shape_np_array_3:
  "(length (shape (np_array im)) = 3 \<and> shape (np_array im) ! 2 = 3) = (im_bands im = 3)"
  by (auto simp: np_array_def)

lemma fromarray_hw3:
  "fromarray \<lparr>shape = [h, w, 3], data = d\<rparr> =
     Inr \<lparr>im_width = w, im_height = h, im_bands = 3, im_data = d\<rparr>"
  by (simp add: fromarray_def)

lemma apply_colorblindness_matrix_rgb:
  assumes "im_bands img = 3"
  shows "\<exists>out. apply_colorblindness_matrix img matrix sev = Inr out \<and>
           im_width out = im_width img \<and> im_height out = im_height img \<and> im_bands out = 3"
  using assms
  by (simp add: apply_colorblindness_matrix_def Let_def map_array_def np_array_def fromarray_def)

lemma apply_colorblindness_matrix_not_rgb:
  assumes "im_bands img \<noteq> 3"
  shows "apply_colorblindness_matrix img matrix sev = Inl ValueError"
  using assms
  by (simp add: apply_colorblindness_matrix_def Let_def map_array_def np_array_def)

text \<open>
  Claim C9.  \<open>apply_colorblindness_matrix\<close> raises its ValueError (the image is not in
  RGB format) exactly for the images that do not have three channels, for every matrix
  and every severity; for an image of three channels it returns an image.  The error is
  raised once and ends the call: there is no retry in the function.
\<close>

theorem non_three_channel_rejected:
  "(apply_colorblindness_matrix img matrix sev = Inl ValueError) = (im_bands img \<noteq> 3)
   \<and> ((\<exists>out. apply_colorblindness_matrix img matrix sev = Inr out) = (im_bands img = 3))"
proof (cases "im_bands img = 3")
  case True
  from apply_colorblindness_matrix_rgb [OF True, of matrix sev]
  show ?thesis using True by auto
next
  case False
  from apply_colorblindness_matrix_not_rgb [OF False, of matrix sev]
  show ?thesis using False by auto
qed

theorem non_three_channel_rejected_witness:
  "apply_colorblindness_matrix
      \<lparr>im_width = 1, im_height = 1, im_bands = 1, im_data = [7]\<rparr> improved_protanopia 1 = Inl ValueError
   \<and> apply_colorblindness_matrix
      \<lparr>im_width = 1, im_height = 1, im_bands = 4, im_data = [7, 8, 9, 255]\<rparr> tritanopia_matrix (1/2)
        = Inl ValueError
   \<and> (\<exists>out. apply_colorblindness_matrix
      \<lparr>im_width = 1, im_height = 1, im_bands = 3, im_data = [7, 8, 9]\<rparr> deuteranopia_matrix 1 = Inr out)"
  using non_three_channel_rejected
          [of "\<lparr>im_width = 1, im_height = 1, im_bands = 1, im_data = [7]\<rparr>" improved_protanopia 1]
        non_three_channel_rejected
          [of "\<lparr>im_width = 1, im_height = 1, im_bands = 4, im_data = [7, 8, 9, 255]\<rparr>" tritanopia_matrix "1/2"]
        non_three_channel_rejected
          [of "\<lparr>im_width = 1, im_height = 1, im_bands = 3, im_data = [7, 8, 9]\<rparr>" deuteranopia_matrix 1]
  by simp

lemma dot_row_gray: "dot_row (x, x, x) row = x * row_sum row"
  by (simp add: dot_row_def row_sum_def algebra_simps split: prod.splits)

lemma quantise_near_one:
  fixes v :: nat and s :: real
  assumes v: "v \<le> 255" and lo: "0.999999 \<le> s" and hi: "s \<le> 1.000001"
  shows "v - 1 \<le> astype_uint8 (np_clip (real v / 255 * s) 0 1 * 255)
       \<and> astype_uint8 (np_clip (real v / 255 * s) 0 1 * 255) \<le> v"
proof -
  let ?y = "np_clip (real v / 255 * s) 0 1 * 255"
  have rv: "0 \<le> real v" "real v \<le> 255" using v by simp_all
  have vs_lo: "real v - 1 < real v * s \<or> v = 0"
  proof (cases "v = 0")
    case False
    have "real v * (1 - s) \<le> real v * 0.000001"
      using rv lo by (intro mult_left_mono) simp_all
    also have "\<dots> \<le> 255 * 0.000001" using rv by simp
    finally show ?thesis by (simp add: algebra_simps)
  qed simp
  have vs_hi: "real v * s < real v + 1"
  proof -
    have "real v * (s - 1) \<le> real v * 0.000001"
      using rv hi by (intro mult_left_mono) simp_all
    also have "\<dots> \<le> 255 * 0.000001" using rv by simp
    finally show ?thesis by (simp add: algebra_simps)
  qed
  have spos: "0 \<le> real v * s" using rv lo by simp
  have y: "?y = min (real v * s) 255"
    using spos by (simp add: np_clip_def min_def max_def)
  then have y0: "0 \<le> ?y" and y255: "?y \<le> 255" using spos by simp_all
  have ylo: "real v - 1 < ?y \<or> v = 0" using vs_lo rv y by (auto simp: min_def)
  have yhi: "?y < real v + 1" using vs_hi y by (simp add: min_def)
  have fl_hi: "\<lfloor>?y\<rfloor> \<le> int v" using yhi by (simp add: floor_le_iff)
  have fl_lo: "int v - 1 \<le> \<lfloor>?y\<rfloor>"
  proof (cases "v = 0")
    case True then show ?thesis using y0 by (simp add: le_floor_iff)
  next
    case False
    then have "real v - 1 \<le> ?y" using ylo by simp
    then show ?thesis by (simp add: le_floor_iff)
  qed
  have fl0: "0 \<le> \<lfloor>?y\<rfloor>" using y0 by simp
  have fl255: "\<lfloor>?y\<rfloor> \<le> 255" using y255 by (simp add: floor_le_iff)
  have "astype_uint8 ?y = nat \<lfloor>?y\<rfloor> mod 256" using y0 by (simp add: astype_uint8_def)
  also have "\<dots> = nat \<lfloor>?y\<rfloor>"
  proof (rule mod_less)
    show "nat \<lfloor>?y\<rfloor> < 256" using fl255 by linarith
  qed
  finally have a: "astype_uint8 ?y = nat \<lfloor>?y\<rfloor>" .
  show ?thesis unfolding a using fl_hi fl_lo fl0 by linarith
qed

lemma quantise_exact:
  fixes v :: nat
  assumes v: "v \<le> 255"
  shows "astype_uint8 (np_clip (real v / 255 * 1) 0 1 * 255) = v"
proof -
  have "np_clip (real v / 255) 0 1 = real v / 255"
    using v by (simp add: np_clip_def min_def max_def)
  then show ?thesis using v by (simp add: astype_uint8_def)
qed


lemma dichromacy_rows_near_one:
  "m \<in> set dichromacy_matrices \<Longrightarrow> rows_near_one 0.000001 m"
  by (auto simp: dichromacy_matrices_def rows_near_one_def row_sum_def
        protanopia_matrix_def deuteranopia_matrix_def tritanopia_matrix_def
        improved_protanopia_def improved_deuteranopia_def improved_tritanopia_def)

lemma gray_channel_near:
  assumes "v \<le> 255" and "\<bar>row_sum row - 1\<bar> \<le> 0.000001"
  shows "v - 1 \<le> astype_uint8 (np_clip (dot_row (real v / 255, real v / 255, real v / 255) row) 0 1 * 255)
       \<and> astype_uint8 (np_clip (dot_row (real v / 255, real v / 255, real v / 255) row) 0 1 * 255) \<le> v"
proof -
  have d: "row_sum row - 1 \<le> 0.000001" "- (row_sum row - 1) \<le> 0.000001"
    using assms(2) by (rule abs_le_D1, rule abs_le_D2)
  have "0.999999 \<le> row_sum row" "row_sum row \<le> 1.000001" using d by simp_all
  from quantise_near_one [OF assms(1) this] show ?thesis by (simp add: dot_row_gray)
qed

lemma gray_pixel_result:
  "apply_colorblindness_matrix
      \<lparr>im_width = 1, im_height = 1, im_bands = 3, im_data = [v, v, v]\<rparr> (row0, row1, row2) 1.0 =
    Inr \<lparr>im_width = 1, im_height = 1, im_bands = 3,
         im_data = [astype_uint8 (np_clip (dot_row (real v / 255, real v / 255, real v / 255) row0) 0 1 * 255),
                    astype_uint8 (np_clip (dot_row (real v / 255, real v / 255, real v / 255) row1) 0 1 * 255),
                    astype_uint8 (np_clip (dot_row (real v / 255, real v / 255, real v / 255) row2) 0 1 * 255)]\<rparr>"
  by (simp add: apply_colorblindness_matrix_def Let_def map_array_def np_array_def fromarray_def
        dot_matrix_T_def map_pixel_def)

text \<open>
  Claim C6.  Every row of each of the six dichromacy matrices sums to 1 up to one
  millionth, and an achromatic pixel \<open>(v, v, v)\<close> transformed at severity 1.0 keeps its
  value within the tolerance of the quantisation: each output channel is \<open>v\<close> or
  \<open>v - 1\<close>.
\<close>

theorem gray_pixel_fixed_point:
  assumes "v \<le> 255" and "matrix \<in> set dichromacy_matrices"
  shows "rows_near_one 0.000001 matrix
       \<and> (\<exists>a b c. apply_colorblindness_matrix
              \<lparr>im_width = 1, im_height = 1, im_bands = 3, im_data = [v, v, v]\<rparr> matrix 1.0 =
            Inr \<lparr>im_width = 1, im_height = 1, im_bands = 3, im_data = [a, b, c]\<rparr>
            \<and> v - 1 \<le> a \<and> a \<le> v \<and> v - 1 \<le> b \<and> b \<le> v \<and> v - 1 \<le> c \<and> c \<le> v)"
proof -
  obtain row0 row1 row2 where m: "matrix = (row0, row1, row2)" by (cases matrix) auto
  have near: "rows_near_one 0.000001 matrix" using assms(2) by (rule dichromacy_rows_near_one)
  then have r: "\<bar>row_sum row0 - 1\<bar> \<le> 0.000001" "\<bar>row_sum row1 - 1\<bar> \<le> 0.000001"
    "\<bar>row_sum row2 - 1\<bar> \<le> 0.000001"
    by (simp_all add: rows_near_one_def m)
  show ?thesis
    using near gray_channel_near [OF assms(1) r(1)] gray_channel_near [OF assms(1) r(2)]
      gray_channel_near [OF assms(1) r(3)]
    unfolding m gray_pixel_result by blast
qed

theorem gray_pixel_fixed_point_witness:
  "apply_colorblindness_matrix
      \<lparr>im_width = 1, im_height = 1, im_bands = 3, im_data = [100, 100, 100]\<rparr> improved_deuteranopia 1.0 =
    Inr \<lparr>im_width = 1, im_height = 1, im_bands = 3, im_data = [100, 99, 100]\<rparr>
   \<and> apply_colorblindness_matrix
      \<lparr>im_width = 1, im_height = 1, im_bands = 3, im_data = [100, 100, 100]\<rparr> protanopia_matrix 1.0 =
    Inr \<lparr>im_width = 1, im_height = 1, im_bands = 3, im_data = [100, 100, 100]\<rparr>
   \<and> rows_near_one 0.000001 improved_deuteranopia"
proof -
  have m: "improved_deuteranopia \<in> set dichromacy_matrices"
    by (simp add: dichromacy_matrices_def)
  have a: "apply_colorblindness_matrix
      \<lparr>im_width = 1, im_height = 1, im_bands = 3, im_data = [100, 100, 100]\<rparr> improved_deuteranopia 1.0 =
    Inr \<lparr>im_width = 1, im_height = 1, im_bands = 3, im_data = [100, 99, 100]\<rparr>"
    unfolding improved_deuteranopia_def gray_pixel_result
    by (simp add: dot_row_def np_clip_def astype_uint8_def)
  have b: "apply_colorblindness_matrix
      \<lparr>im_width = 1, im_height = 1, im_bands = 3, im_data = [100, 100, 100]\<rparr> protanopia_matrix 1.0 =
    Inr \<lparr>im_width = 1, im_height = 1, im_bands = 3, im_data = [100, 100, 100]\<rparr>"
    unfolding protanopia_matrix_def gray_pixel_result
    by (simp add: dot_row_def np_clip_def astype_uint8_def)
  from gray_pixel_fixed_point [of 100 improved_deuteranopia, OF _ m] a b show ?thesis by simp
qed

section \<open>Properties of the noise generators\<close>

lemma astype_uint8_byte: "v \<le> 255 \<Longrightarrow> astype_uint8 (np_clip (real v) 0 255) = v"
  by (simp add: astype_uint8_def np_clip_def min_def max_def)

lemma map_enum_ident:
  "(\<And>i. i < length xs \<Longrightarrow> f i (xs ! i) = xs ! i) \<Longrightarrow> map_enum f xs = xs"
  by (rule nth_equalityI) simp_all

lemma valid_bytes_nth: "valid_bytes xs \<Longrightarrow> i < length xs \<Longrightarrow> xs ! i \<le> 255"
  by (simp add: valid_bytes_def list_all_length)

lemma fromarray_np_array:
  assumes "1 \<le> im_bands im" and "im_bands im \<le> 4"
  shows "fromarray \<lparr>shape = shape (np_array im), data = d\<rparr> =
           Inr \<lparr>im_width = im_width im, im_height = im_height im, im_bands = im_bands im, im_data = d\<rparr>"
  using assms by (simp add: fromarray_def np_array_def)

lemma clip_cast_enum:
  "clip_cast (map_enum_array f a) =
     \<lparr>shape = shape a, data = map_enum (\<lambda>i p. astype_uint8 (np_clip (f i p) 0 255)) (data a)\<rparr>"
  by (simp add: clip_cast_def map_array_def map_enum_array_def map_map_enum)

lemma zero_scale_noise: "np_random_normal 0 0 zdraw = 0"
  by (simp add: np_random_normal_def)

lemma gaussian_zero_data:
  assumes "valid_bytes xs"
  shows "map_enum (\<lambda>i p. astype_uint8 (np_clip (real p + np_random_normal 0 (0 * s) (z i)) 0 255)) xs = xs"
  using assms by (intro map_enum_ident) (simp add: zero_scale_noise astype_uint8_byte valid_bytes_nth)

text \<open>
  Claim C4.  Gaussian noise at level 0 returns the image unchanged, in
  \<open>apply_gaussian_noise\<close> (intensity 0) and in \<open>apply_noise_gradient\<close> (gradient level
  0): the standard deviation is exactly 0 and the noise added to every byte is exactly 0,
  whatever the random draws.
\<close>

theorem gaussian_noise_level_zero_identity:
  assumes "wf_image img"
  shows "apply_gaussian_noise z img 0 = Inr img
       \<and> apply_noise_gradient z img 0 = Inr img
       \<and> np_random_normal 0 (0 * 50) zdraw = 0
       \<and> np_random_normal 0 (real_of_int 0 / 99.0 * 25) zdraw = 0"
proof -
  from assms have b: "1 \<le> im_bands img" "im_bands img \<le> 4" and v: "valid_bytes (im_data img)"
    by (simp_all add: wf_image_def)
  have d: "data (np_array img) = im_data img" by (simp add: np_array_def)
  have g: "apply_gaussian_noise z img 0 = Inr img"
    using gaussian_zero_data [OF v, of 50 z]
    by (simp add: apply_gaussian_noise_def Let_def clip_cast_enum fromarray_np_array [OF b] d)
  have n: "apply_noise_gradient z img 0 = Inr img"
    using gaussian_zero_data [OF v, of 25 z]
    by (simp add: apply_noise_gradient_def Let_def clip_cast_enum fromarray_np_array [OF b] d)
  show ?thesis using g n by (simp add: np_random_normal_def)
qed

theorem gaussian_noise_level_zero_identity_witness:
  "apply_gaussian_noise (\<lambda>i. 3)
      \<lparr>im_width = 1, im_height = 2, im_bands = 3, im_data = [0, 17, 255, 4, 200, 90]\<rparr> 0 =
     Inr \<lparr>im_width = 1, im_height = 2, im_bands = 3, im_data = [0, 17, 255, 4, 200, 90]\<rparr>
   \<and> apply_noise_gradient (\<lambda>i. - 2)
      \<lparr>im_width = 1, im_height = 2, im_bands = 3, im_data = [0, 17, 255, 4, 200, 90]\<rparr> 0 =
     Inr \<lparr>im_width = 1, im_height = 2, im_bands = 3, im_data = [0, 17, 255, 4, 200, 90]\<rparr>"
proof -
  have w: "wf_image \<lparr>im_width = 1, im_height = 2, im_bands = 3, im_data = [0, 17, 255, 4, 200, 90]\<rparr>"
    by (simp add: wf_image_def valid_bytes_def)
  from gaussian_noise_level_zero_identity [OF w, of "\<lambda>i. 3" 0]
       gaussian_noise_level_zero_identity [OF w, of "\<lambda>i. - 2" 0]
  show ?thesis by simp
qed

section \<open>Preservation of the image dimensions\<close>

subsection \<open>Arrays\<close>

lemma shape_clip_cast [simp]: "shape (clip_cast a) = shape a"
  by (simp add: clip_cast_def map_array_def)

lemma shape_map_array [simp]: "shape (map_array f a) = shape a"
  by (simp add: map_array_def)

lemma shape_map_enum_array [simp]: "shape (map_enum_array f a) = shape a"
  by (simp add: map_enum_array_def)

lemma update_channel_ok:
  "shape a = [h, w, 3] \<Longrightarrow> c < 3 \<Longrightarrow>
     \<exists>b. update_channel c f a = Inr b \<and> shape b = [h, w, 3]"
  by (simp add: update_channel_def)

lemma update_channel_bytes_ok:
  "shape a = [h, w, 3] \<Longrightarrow> c < 3 \<Longrightarrow>
     \<exists>b. update_channel_bytes c f a = Inr b \<and> shape b = [h, w, 3]"
  by (simp add: update_channel_bytes_def)

lemma shape_degrade_sharpness: "shape (degrade_sharpness blur img lvl) = shape img"
  by (simp add: degrade_sharpness_def Let_def)

lemma shape_degrade_brightness: "shape (degrade_brightness img lvl) = shape img"
  by (simp add: degrade_brightness_def Let_def)

lemma shape_degrade_contrast: "shape (degrade_contrast img lvl) = shape img"
  by (simp add: degrade_contrast_def Let_def)

lemma shape_degrade_color_distortion:
  assumes "shape img = [h, w, 3]"
  shows "\<exists>out. degrade_color_distortion bgr2hsv hsv2bgr img lvl = Inr out \<and> shape out = shape img"
proof (cases "lvl = 0")
  case True
  then show ?thesis by (simp add: degrade_color_distortion_def)
next
  case False
  let ?hsv = "\<lparr>shape = shape img, data = map real (bgr2hsv (data img))\<rparr>"
  let ?hue = "\<lambda>x. float_mod (x + (real_of_int lvl / 100.0 * 360 - 180)) 180"
  let ?sat = "\<lambda>x. np_clip (x * (0.1 + real_of_int lvl / 100.0 * 2.9)) 0 255"
  have "shape ?hsv = [h, w, 3]" using assms by simp
  from update_channel_ok [OF this, of 0 ?hue]
  obtain hsv1 where h1: "update_channel 0 ?hue ?hsv = Inr hsv1" "shape hsv1 = [h, w, 3]" by auto
  from update_channel_ok [OF h1(2), of 1 ?sat]
  obtain hsv2 where h2: "update_channel 1 ?sat hsv1 = Inr hsv2" by auto
  show ?thesis using False h1 h2
    by (simp add: degrade_color_distortion_def Let_def then_do_def)
qed

lemma scale_channel_ok:
  "shape a = [h, w, 3] \<Longrightarrow> c < 3 \<Longrightarrow>
     \<exists>b. scale_channel c k a = Inr b \<and> shape b = [h, w, 3]"
  unfolding scale_channel_def by (rule update_channel_ok)

lemma then_scale_ok:
  assumes "\<exists>a. r = Inr a \<and> shape a = [h, w, 3]" and "c < 3"
  shows "\<exists>b. then_do r (scale_channel c k) = Inr b \<and> shape b = [h, w, 3]"
proof -
  from assms(1) obtain a where a: "r = Inr a" "shape a = [h, w, 3]" by blast
  from scale_channel_ok [OF a(2) assms(2), of k] show ?thesis by (simp add: a(1) then_do_def)
qed

lemma then_clip_ok:
  assumes "\<exists>a. r = Inr a \<and> shape a = [h, w, 3]"
  shows "\<exists>out. then_do r (\<lambda>a. Inr (clip_cast a)) = Inr out \<and> shape out = [h, w, 3]"
proof -
  from assms obtain a where "r = Inr a" "shape a = [h, w, 3]" by blast
  then show ?thesis by (simp add: then_do_def)
qed

lemma shape_degrade_color_shift:
  assumes "shape img = [h, w, 3]"
  shows "\<exists>out. degrade_color_shift img lvl = Inr out \<and> shape out = shape img"
proof (cases "lvl = 0")
  case True
  then show ?thesis by (simp add: degrade_color_shift_def)
next
  case False
  have f: "shape (map_array real img) = [h, w, 3]" using assms by simp
  note s = scale_channel_ok [OF f]
  show ?thesis
    unfolding degrade_color_shift_def Let_def assms using False
    by (auto intro!: then_clip_ok then_scale_ok s)
qed

lemma py_int_nonneg: "0 \<le> x \<Longrightarrow> 0 \<le> py_int x"
  by (simp add: py_int_def)

lemma shape_degrade_resolution:
  assumes "shape img = [h, w, c]" and "0 < h" and "0 < w"
  shows "\<exists>out. degrade_resolution inter_area inter_linear img lvl = Inr out \<and> shape out = shape img"
proof (cases "lvl = 0")
  case True
  then show ?thesis by (simp add: degrade_resolution_def)
next
  case False
  define new_w where "new_w = max (py_int (real w * (1.0 - (real_of_int lvl / 100.0) * 0.95))) 8"
  define new_h where "new_h = max (py_int (real h * (1.0 - (real_of_int lvl / 100.0) * 0.95))) 8"
  have pos: "nat new_w \<noteq> 0" "nat new_h \<noteq> 0" by (simp_all add: new_w_def new_h_def)
  have down: "cv2_resize inter_area img (nat new_w, nat new_h) =
      Inr \<lparr>shape = [nat new_h, nat new_w, c], data = inter_area img (nat new_w, nat new_h)\<rparr>"
    using assms pos by (simp add: cv2_resize_def)
  show ?thesis
    using False assms pos
    by (simp add: degrade_resolution_def Let_def then_do_def down [unfolded new_w_def new_h_def]
        new_w_def new_h_def cv2_resize_def)
qed


subsection \<open>PIL images\<close>

lemma same_size_refl [simp]: "same_size a a"
  by (simp add: same_size_def)

lemma fromarray_same_size:
  assumes "1 \<le> im_bands im" and "im_bands im \<le> 4" and "shape a = shape (np_array im)"
  shows "\<exists>out. fromarray a = Inr out \<and> same_size out im"
proof -
  have "a = \<lparr>shape = shape (np_array im), data = data a\<rparr>" using assms(3) by simp
  then have "fromarray a = Inr \<lparr>im_width = im_width im, im_height = im_height im,
      im_bands = im_bands im, im_data = data a\<rparr>"
    using fromarray_np_array [OF assms(1,2), of "data a"] by simp
  then show ?thesis by (simp add: same_size_def)
qed

lemma size_apply_gaussian_noise:
  assumes "wf_image img" and "0 \<le> intensity"
  shows "\<exists>out. apply_gaussian_noise z img intensity = Inr out \<and> same_size out img"
proof -
  from assms(1) have b: "1 \<le> im_bands img" "im_bands img \<le> 4" by (simp_all add: wf_image_def)
  have "\<not> intensity * 50 < 0" using assms(2) by simp
  then show ?thesis
    by (simp add: apply_gaussian_noise_def Let_def fromarray_same_size [OF b])
qed

lemma size_apply_noise_gradient:
  assumes "wf_image img" and "0 \<le> gradient_level"
  shows "\<exists>out. apply_noise_gradient z img gradient_level = Inr out \<and> same_size out img"
proof -
  from assms(1) have b: "1 \<le> im_bands img" "im_bands img \<le> 4" by (simp_all add: wf_image_def)
  have "\<not> real_of_int gradient_level / 99.0 * 25 < 0" using assms(2) by simp
  then show ?thesis
    by (simp add: apply_noise_gradient_def Let_def fromarray_same_size [OF b])
qed

lemma size_apply_salt_pepper_noise:
  assumes "wf_image img"
  shows "\<exists>out. apply_salt_pepper_noise u img intensity = Inr out \<and> same_size out img"
proof -
  from assms(1) have b: "1 \<le> im_bands img" "im_bands img \<le> 4" by (simp_all add: wf_image_def)
  show ?thesis
    by (simp add: apply_salt_pepper_noise_def Let_def fromarray_same_size [OF b])
qed

lemma size_apply_poisson_noise:
  assumes "wf_image img" and "0 \<le> intensity"
  shows "\<exists>out. apply_poisson_noise pois img intensity = Inr out \<and> same_size out img"
proof -
  from assms(1) have b: "1 \<le> im_bands img" "im_bands img \<le> 4" by (simp_all add: wf_image_def)
  have "\<not> list_ex (\<lambda>x. x * intensity * 0.1 < 0) (map real (im_data img))"
    using assms(2) by (simp add: list_ex_iff not_less)
  then have ok: "\<not> list_ex (\<lambda>x. x * intensity * 0.1 < 0) (data (map_array real (np_array img)))"
    by (simp add: map_array_def np_array_def)
  show ?thesis
    unfolding apply_poisson_noise_def Let_def using ok
    by (simp add: fromarray_same_size [OF b])
qed

lemma size_apply_speckle_noise:
  assumes "wf_image img"
  shows "\<exists>out. apply_speckle_noise z img intensity = Inr out \<and> same_size out img"
proof -
  from assms(1) have b: "1 \<le> im_bands img" "im_bands img \<le> 4" by (simp_all add: wf_image_def)
  show ?thesis
    by (simp add: apply_speckle_noise_def Let_def fromarray_same_size [OF b])
qed

lemma size_apply_blur_effect: "same_size (apply_blur_effect blur img intensity) img"
  by (simp add: apply_blur_effect_def Let_def same_size_def)

lemma size_pil_blend: "same_size (pil_blend d img alpha) img"
  by (simp add: pil_blend_def same_size_def)

lemma size_pixelation_core:
  assumes "0 < im_width img" and "0 < im_height img" and "1 \<le> pixel_size"
  shows "\<exists>out. then_do (pil_resize nearest img
                  (nat (max 1 (int (im_width img) div pixel_size)),
                   nat (max 1 (int (im_height img) div pixel_size))))
               (\<lambda>resized. pil_resize nearest resized (im_width img, im_height img)) = Inr out
             \<and> same_size out img"
  using assms by (simp add: pil_resize_def then_do_def same_size_def)

lemma size_apply_pixelation:
  assumes "0 < im_width img" and "0 < im_height img"
  shows "\<exists>out. apply_pixelation nearest img intensity = Inr out \<and> same_size out img"
  unfolding apply_pixelation_def Let_def fst_conv snd_conv
  by (rule size_pixelation_core [OF assms]) simp

lemma size_apply_pixel_manipulation:
  assumes "0 < im_width img" and "0 < im_height img"
  shows "\<exists>out. apply_pixel_manipulation nearest img gradient_level = Inr out \<and> same_size out img"
  unfolding apply_pixel_manipulation_def Let_def fst_conv snd_conv
  by (rule size_pixelation_core [OF assms]) simp

lemma size_apply_color_shift:
  assumes "wf_image img" and "im_bands img = 3"
  shows "\<exists>out. apply_color_shift draws img intensity = Inr out \<and> same_size out img"
proof -
  obtain r0 r1 r2 where d: "draws = (r0, r1, r2)" by (cases draws) auto
  from assms have b: "1 \<le> im_bands img" "im_bands img \<le> 4" by (simp_all add: wf_image_def)
  let ?a = "np_array img"
  have sh: "shape ?a = [im_height img, im_width img, 3]" using assms(2) by (simp add: np_array_def)
  let ?f0 = "\<lambda>p. astype_uint8 (np_clip (real p + random_uniform (- (intensity * 50)) (intensity * 50) r0) 0 255)"
  let ?f1 = "\<lambda>p. astype_uint8 (np_clip (real p + random_uniform (- (intensity * 50)) (intensity * 50) r1) 0 255)"
  let ?f2 = "\<lambda>p. astype_uint8 (np_clip (real p + random_uniform (- (intensity * 50)) (intensity * 50) r2) 0 255)"
  from update_channel_bytes_ok [OF sh, of 0 ?f0]
  obtain a0 where a0: "update_channel_bytes 0 ?f0 ?a = Inr a0" "shape a0 = [im_height img, im_width img, 3]"
    by auto
  from update_channel_bytes_ok [OF a0(2), of 1 ?f1]
  obtain a1 where a1: "update_channel_bytes 1 ?f1 a0 = Inr a1" "shape a1 = [im_height img, im_width img, 3]"
    by auto
  from update_channel_bytes_ok [OF a1(2), of 2 ?f2]
  obtain a2 where a2: "update_channel_bytes 2 ?f2 a1 = Inr a2" "shape a2 = [im_height img, im_width img, 3]"
    by auto
  have "shape a2 = shape ?a" using a2(2) sh by simp
  from fromarray_same_size [OF b this]
  show ?thesis using sh a0(1) a1(1) a2(1)
    by (simp add: apply_color_shift_def Let_def d then_do_def)
qed

lemma size_apply_colorblindness_matrix:
  assumes "im_bands img = 3"
  shows "\<exists>out. apply_colorblindness_matrix img matrix sev = Inr out \<and> same_size out img"
  using assms
  by (simp add: apply_colorblindness_matrix_def Let_def map_array_def np_array_def fromarray_def
        same_size_def)

text \<open>
  Claim C10.  On an image of three channels with positive width and height, and for every
  level and intensity in range, every degradation returns an image of the same height,
  width and channel count as its input.  Resolution loss and pixelation resize the
  downsampled intermediate back to the original size; the resampling and filtering of
  the libraries are arbitrary here.
\<close>

theorem degradations_preserve_dimensions:
  assumes arr: "shape arr = [h, w, 3]" "0 < h" "0 < w"
    and lvl: "0 \<le> lvl" "lvl \<le> 100"
    and img: "wf_image img" "im_bands img = 3" "0 < im_width img" "0 < im_height img"
    and intensity: "0 \<le> intensity" "intensity \<le> 1"
    and gradient_level: "0 \<le> gradient_level" "gradient_level \<le> 99"
  shows "shape (degrade_sharpness blur arr lvl) = shape arr
       \<and> shape (degrade_brightness arr lvl) = shape arr
       \<and> shape (degrade_contrast arr lvl) = shape arr
       \<and> (\<exists>out. degrade_color_distortion bgr2hsv hsv2bgr arr lvl = Inr out \<and> shape out = shape arr)
       \<and> (\<exists>out. degrade_color_shift arr lvl = Inr out \<and> shape out = shape arr)
       \<and> (\<exists>out. degrade_resolution inter_area inter_linear arr lvl = Inr out \<and> shape out = shape arr)
       \<and> (\<exists>out. apply_gaussian_noise z img intensity = Inr out \<and> same_size out img)
       \<and> (\<exists>out. apply_salt_pepper_noise u img intensity = Inr out \<and> same_size out img)
       \<and> (\<exists>out. apply_poisson_noise pois img intensity = Inr out \<and> same_size out img)
       \<and> (\<exists>out. apply_speckle_noise z img intensity = Inr out \<and> same_size out img)
       \<and> same_size (apply_blur_effect pil_blur img intensity) img
       \<and> (\<exists>out. apply_pixelation nearest img intensity = Inr out \<and> same_size out img)
       \<and> (\<exists>out. apply_color_shift draws img intensity = Inr out \<and> same_size out img)
       \<and> same_size (apply_contrast_variation degenerate img intensity) img
       \<and> same_size (apply_brightness_variation img intensity) img
       \<and> same_size (apply_saturation_variation degenerate img intensity) img
       \<and> (\<exists>out. apply_noise_gradient z img gradient_level = Inr out \<and> same_size out img)
       \<and> (\<exists>out. apply_pixel_manipulation nearest img gradient_level = Inr out \<and> same_size out img)
       \<and> (\<exists>out. apply_colorblindness_matrix img matrix intensity = Inr out \<and> same_size out img)"
proof -
  note a1 = shape_degrade_sharpness [of blur arr lvl]
  note a2 = shape_degrade_brightness [of arr lvl]
  note a3 = shape_degrade_contrast [of arr lvl]
  note a4 = shape_degrade_color_distortion [OF arr(1), of bgr2hsv hsv2bgr lvl]
  note a5 = shape_degrade_color_shift [OF arr(1), of lvl]
  note a6 = shape_degrade_resolution [OF arr, of inter_area inter_linear lvl]
  note b1 = size_apply_gaussian_noise [OF img(1) intensity(1), of z]
  note b2 = size_apply_salt_pepper_noise [OF img(1), of u intensity]
  note b3 = size_apply_poisson_noise [OF img(1) intensity(1), of pois]
  note b4 = size_apply_speckle_noise [OF img(1), of z intensity]
  note b5 = size_apply_blur_effect [of pil_blur img intensity]
  note b6 = size_apply_pixelation [OF img(3,4), of nearest intensity]
  note b7 = size_apply_color_shift [OF img(1,2), of draws intensity]
  have b8: "same_size (apply_contrast_variation degenerate img intensity) img"
    by (simp add: apply_contrast_variation_def Let_def size_pil_blend)
  have b9: "same_size (apply_brightness_variation img intensity) img"
    by (simp add: apply_brightness_variation_def Let_def size_pil_blend)
  have b10: "same_size (apply_saturation_variation degenerate img intensity) img"
    by (simp add: apply_saturation_variation_def Let_def size_pil_blend)
  note b11 = size_apply_noise_gradient [OF img(1) gradient_level(1), of z]
  note b12 = size_apply_pixel_manipulation [OF img(3,4), of nearest gradient_level]
  note b13 = size_apply_colorblindness_matrix [OF img(2), of matrix intensity]
  show ?thesis
    by (intro conjI a1 a2 a3 a4 a5 a6 b1 b2 b3 b4 b5 b6 b7 b8 b9 b10 b11 b12 b13)
qed

theorem degradations_preserve_dimensions_witness:
  "(\<exists>out. degrade_resolution (\<lambda>src (w, h). replicate (h * w * 3) 7) (\<lambda>src (w, h). replicate (h * w * 3) 9)
        \<lparr>shape = [2, 1, 3], data = [1, 2, 3, 4, 5, 6]\<rparr> 100 = Inr out
      \<and> shape out = [2, 1, 3])
   \<and> (\<exists>out. apply_pixelation (\<lambda>src (w, h). replicate (h * w * 3) 7)
        \<lparr>im_width = 1, im_height = 2, im_bands = 3, im_data = [1, 2, 3, 4, 5, 6]\<rparr> 1 = Inr out
      \<and> same_size out \<lparr>im_width = 1, im_height = 2, im_bands = 3, im_data = [1, 2, 3, 4, 5, 6::nat]\<rparr>)
   \<and> degrade_resolution (\<lambda>src (w, h). replicate (h * w * 3) 7) (\<lambda>src (w, h). replicate (h * w * 3) 9)
        \<lparr>shape = [2, 1, 3], data = [1, 2, 3, 4, 5, 6]\<rparr> 100
       = Inr \<lparr>shape = [2, 1, 3], data = [9, 9, 9, 9, 9, 9]\<rparr>"
proof -
  let ?arr = "\<lparr>shape = [2, 1, 3], data = [1, 2, 3, 4, 5, 6::nat]\<rparr>"
  let ?img = "\<lparr>im_width = 1, im_height = 2, im_bands = 3, im_data = [1, 2, 3, 4, 5, 6::nat]\<rparr>"
  have h1: "shape ?arr = [2, 1, 3]" "0 < (2::nat)" "0 < (1::nat)" by simp_all
  have h2: "(0::int) \<le> 100" "(100::int) \<le> 100" by simp_all
  have h3: "wf_image ?img" "im_bands ?img = 3" "0 < im_width ?img" "0 < im_height ?img"
    by (simp_all add: wf_image_def valid_bytes_def)
  have h4: "(0::real) \<le> 1" "(1::real) \<le> 1" by simp_all
  have h5: "(0::int) \<le> 99" "(99::int) \<le> 99" by simp_all
  note t = degradations_preserve_dimensions [OF h1 h2 h3 h4 h5,
      where inter_area = "\<lambda>src (w, h). replicate (h * w * 3) 7"
        and inter_linear = "\<lambda>src (w, h). replicate (h * w * 3) 9"
        and nearest = "\<lambda>src (w, h). replicate (h * w * 3) 7"]
  have e: "degrade_resolution (\<lambda>src (w, h). replicate (h * w * 3) 7) (\<lambda>src (w, h). replicate (h * w * 3) 9)
        ?arr 100 = Inr \<lparr>shape = [2, 1, 3], data = [9, 9, 9, 9, 9, 9]\<rparr>"
    by (simp add: degrade_resolution_def Let_def cv2_resize_def then_do_def py_int_def
          numeral_eq_Suc)
  from t have r: "\<exists>out. degrade_resolution (\<lambda>src (w, h). replicate (h * w * 3) 7)
        (\<lambda>src (w, h). replicate (h * w * 3) 9) ?arr 100 = Inr out \<and> shape out = shape ?arr"
    by blast
  from t have p: "\<exists>out. apply_pixelation (\<lambda>src (w, h). replicate (h * w * 3) 7) ?img 1 = Inr out
      \<and> same_size out ?img"
    by blast
  from r have r': "\<exists>out. degrade_resolution (\<lambda>src (w, h). replicate (h * w * 3) 7)
        (\<lambda>src (w, h). replicate (h * w * 3) 9) ?arr 100 = Inr out \<and> shape out = [2, 1, 3]"
    by (simp only: h1)
  show ?thesis by (intro conjI r' p e)
qed

section \<open>Level zero\<close>

lemma to_pixels_map: "to_pixels (map g xs) = map (map_pixel g) (to_pixels xs)"
  by (induction xs rule: to_pixels.induct) (simp_all add: map_pixel_def)

lemma from_to_pixels:
  "3 dvd length xs \<Longrightarrow> from_pixels (map (map_pixel f) (to_pixels xs)) = map f xs"
proof (induction xs rule: to_pixels.induct)
  case (1 r g b rest)
  have "length (r # g # b # rest) = length rest + 3" by simp
  with "1.prems" have "3 dvd length rest + 3" by (simp only:)
  then have "3 dvd length rest" by simp
  with "1.IH" show ?case by (simp add: map_pixel_def)
qed (simp_all add: nat_dvd_not_less)

lemma blend_zero: "map (\<lambda>(p, t). blend_pixel 0 p t) (zip ps (map f ps)) = ps"
  by (induction ps) (auto simp: blend_pixel_def split: prod.splits)

lemma map_pixel_comp: "map_pixel f (map_pixel g p) = map_pixel (\<lambda>x. f (g x)) p"
  by (simp add: map_pixel_def split: prod.splits)

lemma unit_quantise: "v \<le> 255 \<Longrightarrow> astype_uint8 (np_clip (real v / 255) 0 1 * 255) = v"
  by (simp add: np_clip_def min_def max_def astype_uint8_def)

lemma valid_bytes_map_ident:
  "valid_bytes xs \<Longrightarrow> (\<And>v. v \<le> 255 \<Longrightarrow> f v = v) \<Longrightarrow> map f xs = xs"
  by (induction xs) (simp_all add: valid_bytes_def)

lemma colorblind_severity_zero:
  assumes "wf_image img" and "im_bands img = 3"
  shows "apply_colorblindness_matrix img matrix 0 = Inr img"
proof -
  let ?d = "im_data img"
  from assms have len: "3 dvd length ?d" and v: "valid_bytes ?d"
    by (simp_all add: wf_image_def)
  define ps where "ps = to_pixels (map (\<lambda>p. real p / 255) ?d)"
  have ps: "ps = map (map_pixel (\<lambda>p. real p / 255)) (to_pixels ?d)"
    by (simp add: ps_def to_pixels_map)
  have "from_pixels (map (map_pixel (\<lambda>x. astype_uint8 (x * 255)))
          (map (map_pixel (\<lambda>x. np_clip x 0 1))
            (map (\<lambda>(p, t). blend_pixel 0 p t)
              (zip ps (map (\<lambda>p. dot_matrix_T p matrix) ps)))))
        = from_pixels (map (map_pixel (\<lambda>x. astype_uint8 (x * 255)))
          (map (map_pixel (\<lambda>x. np_clip x 0 1)) ps))"
    by (simp only: blend_zero)
  also have "\<dots> = from_pixels (map (map_pixel (\<lambda>p. astype_uint8 (np_clip (real p / 255) 0 1 * 255)))
          (to_pixels ?d))"
    by (simp add: ps map_pixel_comp comp_def)
  also have "\<dots> = map (\<lambda>p. astype_uint8 (np_clip (real p / 255) 0 1 * 255)) ?d"
    by (rule from_to_pixels [OF len])
  also have "\<dots> = ?d" using v by (rule valid_bytes_map_ident) (rule unit_quantise)
  finally show ?thesis using assms(2)
    by (simp add: apply_colorblindness_matrix_def Let_def map_array_def np_array_def fromarray_def
          ps_def comp_assoc)
qed


lemma map_enum_array_ident:
  "(\<And>i. i < length (data a) \<Longrightarrow> f i (data a ! i) = data a ! i) \<Longrightarrow> map_enum_array f a = a"
  by (simp add: map_enum_array_def map_enum_ident)

lemma update_channel_bytes_ident:
  assumes "shape a = [h, w, 3]" and "c < 3" and "valid_bytes (data a)"
    and "\<And>v. v \<le> 255 \<Longrightarrow> f v = v"
  shows "update_channel_bytes c f a = Inr a"
proof -
  have "map_enum_array (\<lambda>i x. if axis2 (shape a) i = c then f x else x) a = a"
    by (rule map_enum_array_ident) (simp add: assms(4) valid_bytes_nth [OF assms(3)])
  then show ?thesis using assms(1,2) by (simp add: update_channel_bytes_def)
qed

lemma fromarray_np_array_ident:
  assumes "1 \<le> im_bands im" and "im_bands im \<le> 4"
  shows "fromarray (np_array im) = Inr im"
  using assms by (simp add: fromarray_def np_array_def)

lemma color_shift_zero:
  assumes "wf_image img" and "im_bands img = 3"
  shows "apply_color_shift draws img 0 = Inr img"
proof -
  obtain r0 r1 r2 where d: "draws = (r0, r1, r2)" by (cases draws) auto
  from assms have b: "1 \<le> im_bands img" "im_bands img \<le> 4" and v: "valid_bytes (data (np_array img))"
    by (simp_all add: wf_image_def np_array_def)
  have sh: "shape (np_array img) = [im_height img, im_width img, 3]"
    using assms(2) by (simp add: np_array_def)
  have u: "\<And>c r. c < 3 \<Longrightarrow> update_channel_bytes c
      (\<lambda>p. astype_uint8 (np_clip (real p + random_uniform (- (0 * 50)) (0 * 50) r) 0 255))
      (np_array img) = Inr (np_array img)"
    by (rule update_channel_bytes_ident [OF sh _ v])
       (simp_all add: random_uniform_def astype_uint8_byte)
  show ?thesis
    using sh by (simp add: apply_color_shift_def Let_def d then_do_def u [simplified]
        fromarray_np_array_ident [OF b])
qed

lemma speckle_zero:
  assumes "wf_image img"
  shows "apply_speckle_noise z img 0 = Inr img"
proof -
  from assms have b: "1 \<le> im_bands img" "im_bands img \<le> 4" and v: "valid_bytes (im_data img)"
    by (simp_all add: wf_image_def)
  have "map_enum (\<lambda>i p. astype_uint8 (np_clip (real p) 0 255)) (im_data img) = im_data img"
    by (rule map_enum_ident) (simp add: astype_uint8_byte valid_bytes_nth [OF v])
  then show ?thesis
    by (simp add: apply_speckle_noise_def Let_def clip_cast_def map_array_def map_enum_array_def
        map_map_enum map_enum_map fromarray_np_array [OF b] np_array_def [of img, THEN arg_cong [of _ _ data]])
qed

lemma salt_pepper_zero:
  assumes "wf_image img" and "\<forall>n. 0 \<le> u n \<and> u n \<le> 1"
  shows "apply_salt_pepper_noise u img 0 = Inr img"
proof -
  from assms have b: "1 \<le> im_bands img" "im_bands img \<le> 4" by (simp_all add: wf_image_def)
  have m: "\<And>n. \<not> u n > 1" "\<And>n. \<not> u n < 0" using assms(2) by (simp_all add: not_less)
  have "map_enum_array (\<lambda>i p. if 1 < u (i div prod_list (drop 2 (shape (np_array img)))) then 0
          else if u (i div prod_list (drop 2 (shape (np_array img)))) < 0 then 255 else p)
        (np_array img) = np_array img"
    by (rule map_enum_array_ident) (simp add: m)
  then show ?thesis
    by (simp add: apply_salt_pepper_noise_def Let_def fromarray_np_array_ident [OF b] cong: if_cong)
qed

lemma pixelation_zero:
  "0 < im_width img \<Longrightarrow> 0 < im_height img \<Longrightarrow> apply_pixelation nearest img 0 = Inr img"
  by (simp add: apply_pixelation_def Let_def py_int_def pil_resize_def then_do_def max_def)

lemma pixel_manipulation_zero:
  "0 < im_width img \<Longrightarrow> 0 < im_height img \<Longrightarrow> apply_pixel_manipulation nearest img 0 = Inr img"
  by (simp add: apply_pixel_manipulation_def Let_def py_int_def pil_resize_def then_do_def max_def)

lemma brightness_variation_zero:
  "im_data (apply_brightness_variation img 0) = map (\<lambda>p. astype_uint8 (0.3 * real p)) (im_data img)"
proof -
  have "map (\<lambda>(in1, in2). blend_byte 0.3 in1 in2) (zip (replicate (length xs) 0) xs) =
        map (\<lambda>p. astype_uint8 (0.3 * real p)) xs" for xs :: "nat list"
    by (induction xs) (simp_all add: blend_byte_def)
  then show ?thesis by (simp add: apply_brightness_variation_def pil_blend_def)
qed

text \<open>
  Claim C1, as the code has it.  At level 0 the six degradations of
  \<open>VisualDegradationGenerator\<close> return their input.  At intensity, level or severity 0,
  on a well-formed RGB image of positive size, Gaussian, salt-and-pepper and speckle noise
  inject nothing, and the pixelations, the random colour shift and the three colour
  blindness simulations return the input.  The brightness and contrast variations of
  \<open>NoiseGradientGenerator\<close> are not the identity at intensity 0: their factors start
  at 0.3 and 0.5.
\<close>

theorem level_zero_identity:
  assumes img: "wf_image img" "im_bands img = 3" "0 < im_width img" "0 < im_height img"
    and u: "\<forall>n. 0 \<le> u n \<and> u n \<le> 1"
  shows "degrade_sharpness blur arr 0 = arr
       \<and> degrade_brightness arr 0 = arr
       \<and> degrade_contrast arr 0 = arr
       \<and> degrade_color_distortion bgr2hsv hsv2bgr arr 0 = Inr arr
       \<and> degrade_color_shift arr 0 = Inr arr
       \<and> degrade_resolution inter_area inter_linear arr 0 = Inr arr
       \<and> apply_gaussian_noise z img 0 = Inr img
       \<and> apply_noise_gradient z img 0 = Inr img
       \<and> apply_salt_pepper_noise u img 0 = Inr img
       \<and> apply_speckle_noise z img 0 = Inr img
       \<and> apply_pixelation nearest img 0 = Inr img
       \<and> apply_pixel_manipulation nearest img 0 = Inr img
       \<and> apply_color_shift draws img 0 = Inr img
       \<and> simulate_protanopia img 0 improved = Inr img
       \<and> simulate_deuteranopia img 0 improved = Inr img
       \<and> simulate_tritanopia img 0 improved = Inr img
       \<and> im_data (apply_brightness_variation img 0) =
             map (\<lambda>p. astype_uint8 (0.3 * real p)) (im_data img)
       \<and> apply_contrast_variation degenerate img 0 = pil_blend (degenerate img) img 0.5"
proof -
  from img(1) have v: "valid_bytes (im_data img)" and b: "1 \<le> im_bands img" "im_bands img \<le> 4"
    by (simp_all add: wf_image_def)
  have d: "data (np_array img) = im_data img" by (simp add: np_array_def)
  have a1: "degrade_sharpness blur arr 0 = arr" by (simp add: degrade_sharpness_def)
  have a2: "degrade_brightness arr 0 = arr" by (simp add: degrade_brightness_def)
  have a3: "degrade_contrast arr 0 = arr" by (simp add: degrade_contrast_def)
  have a4: "degrade_color_distortion bgr2hsv hsv2bgr arr 0 = Inr arr"
    by (simp add: degrade_color_distortion_def)
  have a5: "degrade_color_shift arr 0 = Inr arr" by (simp add: degrade_color_shift_def)
  have a6: "degrade_resolution inter_area inter_linear arr 0 = Inr arr"
    by (simp add: degrade_resolution_def)
  have b1: "apply_gaussian_noise z img 0 = Inr img"
    using gaussian_zero_data [OF v, of 50 z]
    by (simp add: apply_gaussian_noise_def Let_def clip_cast_enum fromarray_np_array [OF b] d)
  have b2: "apply_noise_gradient z img 0 = Inr img"
    using gaussian_zero_data [OF v, of 25 z]
    by (simp add: apply_noise_gradient_def Let_def clip_cast_enum fromarray_np_array [OF b] d)
  note b3 = salt_pepper_zero [OF img(1) u]
  note b4 = speckle_zero [OF img(1), of z]
  note b5 = pixelation_zero [OF img(3,4), of nearest]
  note b6 = pixel_manipulation_zero [OF img(3,4), of nearest]
  note b7 = color_shift_zero [OF img(1,2), of draws]
  note cb = colorblind_severity_zero [OF img(1,2)]
  have c1: "simulate_protanopia img 0 improved = Inr img"
    by (simp add: simulate_protanopia_def cb)
  have c2: "simulate_deuteranopia img 0 improved = Inr img"
    by (simp add: simulate_deuteranopia_def cb)
  have c3: "simulate_tritanopia img 0 improved = Inr img"
    by (simp add: simulate_tritanopia_def cb)
  note e1 = brightness_variation_zero [of img]
  have e2: "apply_contrast_variation degenerate img 0 = pil_blend (degenerate img) img 0.5"
    by (simp add: apply_contrast_variation_def)
  show ?thesis
    by (intro conjI a1 a2 a3 a4 a5 a6 b1 b2 b3 b4 b5 b6 b7 c1 c2 c3 e1 e2)
qed

theorem level_zero_identity_witness:
  "apply_salt_pepper_noise (\<lambda>n. 1/2)
      \<lparr>im_width = 1, im_height = 2, im_bands = 3, im_data = [0, 17, 255, 4, 200, 90]\<rparr> 0 =
     Inr \<lparr>im_width = 1, im_height = 2, im_bands = 3, im_data = [0, 17, 255, 4, 200, 90]\<rparr>
   \<and> simulate_protanopia
      \<lparr>im_width = 1, im_height = 2, im_bands = 3, im_data = [0, 17, 255, 4, 200, 90]\<rparr> 0 True =
     Inr \<lparr>im_width = 1, im_height = 2, im_bands = 3, im_data = [0, 17, 255, 4, 200, 90]\<rparr>
   \<and> degrade_contrast \<lparr>shape = [1, 1, 3], data = [5, 6, 7]\<rparr> 0 =
     \<lparr>shape = [1, 1, 3], data = [5, 6, 7]\<rparr>
   \<and> im_data (apply_brightness_variation
      \<lparr>im_width = 1, im_height = 2, im_bands = 3, im_data = [0, 17, 255, 4, 200, 90]\<rparr> 0) =
     [0, 5, 76, 1, 60, 27]"
proof -
  let ?img = "\<lparr>im_width = 1, im_height = 2, im_bands = 3, im_data = [0, 17, 255, 4, 200, 90::nat]\<rparr>"
  have h: "wf_image ?img" "im_bands ?img = 3" "0 < im_width ?img" "0 < im_height ?img"
    by (simp_all add: wf_image_def valid_bytes_def)
  have hu: "\<forall>n::nat. 0 \<le> (1/2::real) \<and> (1/2::real) \<le> 1" by simp
  note t = level_zero_identity [OF h, of "\<lambda>n. 1/2", OF hu,
      where arr = "\<lparr>shape = [1, 1, 3], data = [5, 6, 7]\<rparr>" and improved = True]
  from t have w1: "apply_salt_pepper_noise (\<lambda>n. 1/2) ?img 0 = Inr ?img" by blast
  from t have w2: "simulate_protanopia ?img 0 True = Inr ?img" by blast
  from t have w3: "degrade_contrast \<lparr>shape = [1, 1, 3], data = [5, 6, 7]\<rparr> 0 =
     \<lparr>shape = [1, 1, 3], data = [5, 6, 7]\<rparr>" by blast
  from t have "im_data (apply_brightness_variation ?img 0) =
             map (\<lambda>p. astype_uint8 (0.3 * real p)) (im_data ?img)" by blast
  then have w4: "im_data (apply_brightness_variation ?img 0) = [0, 5, 76, 1, 60, 27]"
    by (simp add: astype_uint8_def)
  show ?thesis by (intro conjI w1 w2 w3 w4)
qed

text \<open>
  The claim as stated fails on \<open>apply_brightness_variation\<close>: at intensity 0 the
  factor is 0.3 and a byte of 100 becomes 30.
\<close>

theorem brightness_variation_zero_counterexample:
  "apply_brightness_variation
      \<lparr>im_width = 1, im_height = 1, im_bands = 3, im_data = [100, 100, 100]\<rparr> 0 =
     \<lparr>im_width = 1, im_height = 1, im_bands = 3, im_data = [30, 30, 30]\<rparr>
   \<and> apply_brightness_variation
      \<lparr>im_width = 1, im_height = 1, im_bands = 3, im_data = [100, 100, 100]\<rparr> 0 \<noteq>
     \<lparr>im_width = 1, im_height = 1, im_bands = 3, im_data = [100, 100, 100]\<rparr>"
  by (simp add: apply_brightness_variation_def pil_blend_def blend_byte_def astype_uint8_def)

section \<open>Floating-point rounding\<close>

































section \<open>Valid output bytes\<close>

lemma astype_uint8_le: "astype_uint8 x \<le> 255"
proof -
  have "astype_uint8 x < 256" by (simp add: astype_uint8_def)
  then show ?thesis by simp
qed

lemma valid_bytes_length: "valid_bytes xs = (\<forall>i < length xs. xs ! i \<le> 255)"
  by (simp add: valid_bytes_def list_all_length)

lemma valid_bytes_map: "(\<And>x. f x \<le> 255) \<Longrightarrow> valid_bytes (map f xs)"
  by (simp add: valid_bytes_def list_all_iff)

lemma valid_bytes_map_enum:
  "(\<And>i. i < length xs \<Longrightarrow> f i (xs ! i) \<le> 255) \<Longrightarrow> valid_bytes (map_enum f xs)"
  by (simp add: valid_bytes_length)

lemma fromarray_data:
  assumes "1 \<le> im_bands im" and "im_bands im \<le> 4" and "shape a = shape (np_array im)"
  shows "\<exists>out. fromarray a = Inr out \<and> im_data out = data a"
  using assms by (auto simp: fromarray_def np_array_def split: if_splits)

lemma valid_degrade_brightness:
  "valid_bytes (data arr) \<Longrightarrow> valid_bytes (data (degrade_brightness arr lvl))"
  by (simp add: degrade_brightness_def Let_def valid_bytes_clip_cast)

lemma valid_degrade_contrast:
  "valid_bytes (data arr) \<Longrightarrow> valid_bytes (data (degrade_contrast arr lvl))"
  by (simp add: degrade_contrast_def Let_def valid_bytes_clip_cast)

lemma valid_degrade_color_distortion:
  assumes "shape arr = [h, w, 3]" and "valid_bytes (data arr)" and "\<forall>xs. valid_bytes (hsv2bgr xs)"
  shows "\<exists>out. degrade_color_distortion bgr2hsv hsv2bgr arr lvl = Inr out \<and> valid_bytes (data out)"
proof (cases "lvl = 0")
  case True
  then show ?thesis using assms(2) by (simp add: degrade_color_distortion_def)
next
  case False
  let ?hsv = "\<lparr>shape = shape arr, data = map real (bgr2hsv (data arr))\<rparr>"
  let ?hue = "\<lambda>x. float_mod (x + (real_of_int lvl / 100.0 * 360 - 180)) 180"
  let ?sat = "\<lambda>x. np_clip (x * (0.1 + real_of_int lvl / 100.0 * 2.9)) 0 255"
  have "shape ?hsv = [h, w, 3]" using assms(1) by simp
  from update_channel_ok [OF this, of 0 ?hue]
  obtain hsv1 where h1: "update_channel 0 ?hue ?hsv = Inr hsv1" "shape hsv1 = [h, w, 3]" by auto
  from update_channel_ok [OF h1(2), of 1 ?sat]
  obtain hsv2 where h2: "update_channel 1 ?sat hsv1 = Inr hsv2" by auto
  show ?thesis using False h1 h2 assms(3)
    by (simp add: degrade_color_distortion_def Let_def then_do_def)
qed

lemma then_clip_valid:
  assumes "\<exists>a. r = Inr a \<and> shape a = [h, w, 3]"
  shows "\<exists>out. then_do r (\<lambda>a. Inr (clip_cast a)) = Inr out \<and> valid_bytes (data out)"
proof -
  from assms obtain a where "r = Inr a" by blast
  then show ?thesis by (simp add: then_do_def valid_bytes_clip_cast)
qed

lemma valid_degrade_color_shift:
  assumes "shape arr = [h, w, 3]" and "valid_bytes (data arr)"
  shows "\<exists>out. degrade_color_shift arr lvl = Inr out \<and> valid_bytes (data out)"
proof (cases "lvl = 0")
  case True
  then show ?thesis using assms(2) by (simp add: degrade_color_shift_def)
next
  case False
  have f: "shape (map_array real arr) = [h, w, 3]" using assms(1) by simp
  note s = scale_channel_ok [OF f]
  show ?thesis
    unfolding degrade_color_shift_def Let_def using False
    by (auto intro!: then_clip_valid then_scale_ok s)
qed

lemma valid_apply_gaussian_noise:
  assumes "wf_image img" and "0 \<le> intensity"
  shows "\<exists>out. apply_gaussian_noise z img intensity = Inr out \<and> valid_bytes (im_data out)"
proof -
  from assms(1) have b: "1 \<le> im_bands img" "im_bands img \<le> 4" by (simp_all add: wf_image_def)
  let ?a = "clip_cast (map_enum_array
      (\<lambda>i p. real p + np_random_normal 0 (intensity * 50) (z i)) (np_array img))"
  have "shape ?a = shape (np_array img)" by simp
  from fromarray_data [OF b this] obtain out where "fromarray ?a = Inr out" "im_data out = data ?a"
    by blast
  moreover have "\<not> intensity * 50 < 0" using assms(2) by simp
  ultimately show ?thesis
    by (simp add: apply_gaussian_noise_def Let_def valid_bytes_clip_cast)
qed

lemma valid_apply_noise_gradient:
  assumes "wf_image img" and "0 \<le> gradient_level"
  shows "\<exists>out. apply_noise_gradient z img gradient_level = Inr out \<and> valid_bytes (im_data out)"
proof -
  from assms(1) have b: "1 \<le> im_bands img" "im_bands img \<le> 4" by (simp_all add: wf_image_def)
  let ?a = "clip_cast (map_enum_array
      (\<lambda>i p. real p + np_random_normal 0 (real_of_int gradient_level / 99.0 * 25) (z i))
      (np_array img))"
  have "shape ?a = shape (np_array img)" by simp
  from fromarray_data [OF b this] obtain out where "fromarray ?a = Inr out" "im_data out = data ?a"
    by blast
  moreover have "\<not> real_of_int gradient_level / 99.0 * 25 < 0" using assms(2) by simp
  ultimately show ?thesis
    by (simp add: apply_noise_gradient_def Let_def valid_bytes_clip_cast)
qed

lemma valid_apply_salt_pepper_noise:
  assumes "wf_image img"
  shows "\<exists>out. apply_salt_pepper_noise u img intensity = Inr out \<and> valid_bytes (im_data out)"
proof -
  from assms(1) have b: "1 \<le> im_bands img" "im_bands img \<le> 4" and v: "valid_bytes (im_data img)"
    by (simp_all add: wf_image_def)
  let ?f = "\<lambda>i p. let noise_mask = u (i div prod_list (drop 2 (shape (np_array img))))
                    in if noise_mask > 1 - intensity * 0.05 then 0
                       else if noise_mask < intensity * 0.05 then 255
                       else p"
  let ?a = "map_enum_array ?f (np_array img)"
  have "shape ?a = shape (np_array img)" by simp
  from fromarray_data [OF b this] obtain out where o: "fromarray ?a = Inr out" "im_data out = data ?a"
    by blast
  have "valid_bytes (data ?a)"
    unfolding map_enum_array_def ndarray.simps
    by (rule valid_bytes_map_enum) (simp add: Let_def np_array_def valid_bytes_nth [OF v])
  with o show ?thesis by (simp add: apply_salt_pepper_noise_def Let_def)
qed

lemma astype_uint8_f_le: "astype_uint8_f (np_clip_f x 0 255) \<le> 255"
  by (cases x) (simp_all add: astype_uint8_le)

lemma valid_apply_poisson_noise:
  assumes "wf_image img" and "0 \<le> intensity"
  shows "\<exists>out. apply_poisson_noise pois img intensity = Inr out \<and> valid_bytes (im_data out)"
proof -
  from assms(1) have b: "1 \<le> im_bands img" "im_bands img \<le> 4" by (simp_all add: wf_image_def)
  have "\<not> list_ex (\<lambda>x. x * intensity * 0.1 < 0) (map real (im_data img))"
    using assms(2) by (simp add: list_ex_iff not_less)
  then have ok: "\<not> list_ex (\<lambda>x. x * intensity * 0.1 < 0) (data (map_array real (np_array img)))"
    by (simp add: map_array_def np_array_def)
  let ?a = "map_array (\<lambda>x. astype_uint8_f (np_clip_f x 0 255))
     (map_enum_array (\<lambda>i x. np_divide (real (pois i (x * intensity * 0.1))) (intensity * 0.1))
        (map_array real (np_array img)))"
  have "shape ?a = shape (np_array img)" by simp
  from fromarray_data [OF b this] obtain out where o: "fromarray ?a = Inr out" "im_data out = data ?a"
    by blast
  have "valid_bytes (data ?a)"
    by (simp add: map_array_def valid_bytes_map astype_uint8_f_le)
  with o ok show ?thesis unfolding apply_poisson_noise_def Let_def by simp
qed

lemma valid_apply_speckle_noise:
  assumes "wf_image img"
  shows "\<exists>out. apply_speckle_noise z img intensity = Inr out \<and> valid_bytes (im_data out)"
proof -
  from assms(1) have b: "1 \<le> im_bands img" "im_bands img \<le> 4" by (simp_all add: wf_image_def)
  let ?a = "clip_cast (map_enum_array
            (\<lambda>i x. let noise = z i * intensity * 20 in x + x * noise / 100)
            (map_array real (np_array img)))"
  have "shape ?a = shape (np_array img)" by simp
  from fromarray_data [OF b this] obtain out where o: "fromarray ?a = Inr out" "im_data out = data ?a"
    by blast
  then show ?thesis by (simp add: apply_speckle_noise_def Let_def valid_bytes_clip_cast)
qed

lemma update_channel_bytes_valid:
  assumes "shape a = [h, w, 3]" and "c < 3" and "valid_bytes (data a)" and "\<And>v. f v \<le> 255"
  shows "\<exists>b. update_channel_bytes c f a = Inr b \<and> shape b = [h, w, 3] \<and> valid_bytes (data b)"
proof -
  have "valid_bytes (map_enum (\<lambda>i x. if axis2 (shape a) i = c then f x else x) (data a))"
    by (rule valid_bytes_map_enum) (simp add: assms(4) valid_bytes_nth [OF assms(3)])
  then show ?thesis using assms(1,2) by (simp add: update_channel_bytes_def map_enum_array_def)
qed

lemma valid_apply_color_shift:
  assumes "wf_image img" and "im_bands img = 3"
  shows "\<exists>out. apply_color_shift draws img intensity = Inr out \<and> valid_bytes (im_data out)"
proof -
  obtain r0 r1 r2 where d: "draws = (r0, r1, r2)" by (cases draws) auto
  from assms have b: "1 \<le> im_bands img" "im_bands img \<le> 4" and v: "valid_bytes (data (np_array img))"
    by (simp_all add: wf_image_def np_array_def)
  let ?a = "np_array img"
  have sh: "shape ?a = [im_height img, im_width img, 3]" using assms(2) by (simp add: np_array_def)
  let ?f0 = "\<lambda>p. astype_uint8 (np_clip (real p + random_uniform (- (intensity * 50)) (intensity * 50) r0) 0 255)"
  let ?f1 = "\<lambda>p. astype_uint8 (np_clip (real p + random_uniform (- (intensity * 50)) (intensity * 50) r1) 0 255)"
  let ?f2 = "\<lambda>p. astype_uint8 (np_clip (real p + random_uniform (- (intensity * 50)) (intensity * 50) r2) 0 255)"
  from update_channel_bytes_valid [OF sh _ v, of 0 ?f0]
  obtain a0 where a0: "update_channel_bytes 0 ?f0 ?a = Inr a0"
    "shape a0 = [im_height img, im_width img, 3]" "valid_bytes (data a0)"
    by (auto simp: astype_uint8_le)
  from update_channel_bytes_valid [OF a0(2) _ a0(3), of 1 ?f1]
  obtain a1 where a1: "update_channel_bytes 1 ?f1 a0 = Inr a1"
    "shape a1 = [im_height img, im_width img, 3]" "valid_bytes (data a1)"
    by (auto simp: astype_uint8_le)
  from update_channel_bytes_valid [OF a1(2) _ a1(3), of 2 ?f2]
  obtain a2 where a2: "update_channel_bytes 2 ?f2 a1 = Inr a2"
    "shape a2 = [im_height img, im_width img, 3]" "valid_bytes (data a2)"
    by (auto simp: astype_uint8_le)
  have "shape a2 = shape ?a" using a2(2) sh by simp
  from fromarray_data [OF b this] obtain out where "fromarray a2 = Inr out" "im_data out = data a2"
    by blast
  then show ?thesis using sh a0(1) a1(1) a2(1) a2(3)
    by (simp add: apply_color_shift_def Let_def d then_do_def)
qed

lemma blend_byte_le: "blend_byte alpha in1 in2 \<le> 255"
  by (simp add: blend_byte_def Let_def astype_uint8_le)

lemma valid_pil_blend: "valid_bytes (im_data (pil_blend d img alpha))"
  by (simp add: pil_blend_def valid_bytes_def list_all_iff blend_byte_le split: prod.splits)

lemma valid_from_pixels:
  "(\<And>x. f x \<le> 255) \<Longrightarrow> valid_bytes (from_pixels (map (map_pixel f \<circ> g) ps))"
proof (induction ps)
  case Nil
  then show ?case by (simp add: valid_bytes_def)
next
  case (Cons a ps)
  obtain r gr b where g: "g a = (r, gr, b)" by (cases "g a") auto
  from Cons show ?case by (simp add: valid_bytes_def map_pixel_def g)
qed

lemma valid_apply_colorblindness_matrix:
  assumes "im_bands img = 3"
  shows "\<exists>out. apply_colorblindness_matrix img matrix sev = Inr out \<and> valid_bytes (im_data out)"
  using assms
  by (simp add: apply_colorblindness_matrix_def Let_def map_array_def np_array_def fromarray_def
        valid_from_pixels astype_uint8_le comp_assoc)

text \<open>
  Claim C3.  On an image of three channels with bytes in 0..255, and for every level and
  intensity in range, every noise, photometric and colour transform returns without an
  exception an image all of whose bytes lie in 0..255.  This includes Poisson noise at
  intensity 0, where the division by zero gives values that are not numbers and the
  conversion turns them into the byte 0.  The colour conversion of OpenCV is taken to
  return bytes.
\<close>

theorem transforms_yield_valid_bytes:
  assumes arr: "shape arr = [h, w, 3]" "valid_bytes (data arr)"
    and lvl: "0 \<le> lvl" "lvl \<le> 100"
    and img: "wf_image img" "im_bands img = 3"
    and intensity: "0 \<le> intensity" "intensity \<le> 1"
    and gradient_level: "0 \<le> gradient_level" "gradient_level \<le> 99"
    and lib: "\<forall>xs. valid_bytes (hsv2bgr xs)"
  shows "valid_bytes (data (degrade_brightness arr lvl))
       \<and> valid_bytes (data (degrade_contrast arr lvl))
       \<and> (\<exists>out. degrade_color_distortion bgr2hsv hsv2bgr arr lvl = Inr out \<and> valid_bytes (data out))
       \<and> (\<exists>out. degrade_color_shift arr lvl = Inr out \<and> valid_bytes (data out))
       \<and> (\<exists>out. apply_gaussian_noise z img intensity = Inr out \<and> valid_bytes (im_data out))
       \<and> (\<exists>out. apply_salt_pepper_noise u img intensity = Inr out \<and> valid_bytes (im_data out))
       \<and> (\<exists>out. apply_poisson_noise pois img intensity = Inr out \<and> valid_bytes (im_data out))
       \<and> (\<exists>out. apply_speckle_noise z img intensity = Inr out \<and> valid_bytes (im_data out))
       \<and> (\<exists>out. apply_color_shift draws img intensity = Inr out \<and> valid_bytes (im_data out))
       \<and> valid_bytes (im_data (apply_contrast_variation degenerate img intensity))
       \<and> valid_bytes (im_data (apply_brightness_variation img intensity))
       \<and> valid_bytes (im_data (apply_saturation_variation degenerate img intensity))
       \<and> (\<exists>out. apply_noise_gradient z img gradient_level = Inr out \<and> valid_bytes (im_data out))
       \<and> (\<exists>out. apply_colorblindness_matrix img matrix intensity = Inr out \<and> valid_bytes (im_data out))"
proof -
  note a1 = valid_degrade_brightness [OF arr(2), of lvl]
  note a2 = valid_degrade_contrast [OF arr(2), of lvl]
  note a3 = valid_degrade_color_distortion [OF arr lib, of bgr2hsv lvl]
  note a4 = valid_degrade_color_shift [OF arr, of lvl]
  note b1 = valid_apply_gaussian_noise [OF img(1) intensity(1), of z]
  note b2 = valid_apply_salt_pepper_noise [OF img(1), of u intensity]
  note b3 = valid_apply_poisson_noise [OF img(1) intensity(1), of pois]
  note b4 = valid_apply_speckle_noise [OF img(1), of z intensity]
  note b5 = valid_apply_color_shift [OF img, of draws intensity]
  have b6: "valid_bytes (im_data (apply_contrast_variation degenerate img intensity))"
    by (simp add: apply_contrast_variation_def Let_def valid_pil_blend)
  have b7: "valid_bytes (im_data (apply_brightness_variation img intensity))"
    by (simp add: apply_brightness_variation_def Let_def valid_pil_blend)
  have b8: "valid_bytes (im_data (apply_saturation_variation degenerate img intensity))"
    by (simp add: apply_saturation_variation_def Let_def valid_pil_blend)
  note b9 = valid_apply_noise_gradient [OF img(1) gradient_level(1), of z]
  note b10 = valid_apply_colorblindness_matrix [OF img(2), of matrix intensity]
  show ?thesis by (intro conjI a1 a2 a3 a4 b1 b2 b3 b4 b5 b6 b7 b8 b9 b10)
qed

theorem transforms_yield_valid_bytes_witness:
  "(\<exists>out. apply_poisson_noise (\<lambda>i lam. 0)
        \<lparr>im_width = 1, im_height = 1, im_bands = 3, im_data = [10, 20, 30]\<rparr> 0 = Inr out
      \<and> valid_bytes (im_data out))
   \<and> apply_poisson_noise (\<lambda>i lam. 0)
        \<lparr>im_width = 1, im_height = 1, im_bands = 3, im_data = [10, 20, 30]\<rparr> 0 =
       Inr \<lparr>im_width = 1, im_height = 1, im_bands = 3, im_data = [0, 0, 0]\<rparr>
   \<and> (\<exists>out. degrade_color_distortion (\<lambda>xs. xs) (\<lambda>xs. map (\<lambda>x. min x 255) xs)
        \<lparr>shape = [1, 1, 3], data = [10, 20, 30]\<rparr> 100 = Inr out \<and> valid_bytes (data out))
   \<and> valid_bytes (data (degrade_brightness \<lparr>shape = [1, 1, 3], data = [10, 20, 30]\<rparr> 100))"
proof -
  let ?arr = "\<lparr>shape = [1, 1, 3], data = [10, 20, 30::nat]\<rparr>"
  let ?img = "\<lparr>im_width = 1, im_height = 1, im_bands = 3, im_data = [10, 20, 30::nat]\<rparr>"
  have h1: "shape ?arr = [1, 1, 3]" "valid_bytes (data ?arr)" by (simp_all add: valid_bytes_def)
  have h2: "(0::int) \<le> 100" "(100::int) \<le> 100" by simp_all
  have h3: "wf_image ?img" "im_bands ?img = 3" by (simp_all add: wf_image_def valid_bytes_def)
  have h4: "(0::real) \<le> 0" "(0::real) \<le> 1" by simp_all
  have h5: "(0::int) \<le> 0" "(0::int) \<le> 99" by simp_all
  have h6: "\<forall>xs. valid_bytes (map (\<lambda>x. min x 255) xs)"
    by (simp add: valid_bytes_def list_all_iff)
  note t = transforms_yield_valid_bytes [OF h1 h2 h3 h4 h5 h6,
      where pois = "\<lambda>i lam. 0" and bgr2hsv = "\<lambda>xs. xs"]
  from t have w1: "\<exists>out. apply_poisson_noise (\<lambda>i lam. 0) ?img 0 = Inr out
      \<and> valid_bytes (im_data out)" by blast
  have w2: "apply_poisson_noise (\<lambda>i lam. 0) ?img 0 =
       Inr \<lparr>im_width = 1, im_height = 1, im_bands = 3, im_data = [0, 0, 0]\<rparr>"
    by (simp add: apply_poisson_noise_def Let_def map_array_def map_enum_array_def map_enum_def
        np_array_def fromarray_def np_divide_def)
  from t have w3: "\<exists>out. degrade_color_distortion (\<lambda>xs. xs) (\<lambda>xs. map (\<lambda>x. min x 255) xs)
        ?arr 100 = Inr out \<and> valid_bytes (data out)" by blast
  from t have w4: "valid_bytes (data (degrade_brightness ?arr 100))" by blast
  show ?thesis by (intro conjI w1 w2 w3 w4)
qed

end
